theory Spec2Isabelle
  imports Complex_Main
begin

section \<open>Documents and collections\<close>

text \<open>
  The service (\<^verbatim>\<open>main.py\<close>) is a set of request handlers over four MongoDB collections
  (\<^verbatim>\<open>db.py\<close>).  A collection is the list of its documents in insertion order, which is the
  order in which \<^verbatim>\<open>find_one\<close> and \<^verbatim>\<open>update_one\<close> meet them.  Each kind of document is a
  record with the keys the handlers read and write.  Python integers are \<open>int\<close>.  A price, a
  subtotal and a total are numbers of a type \<open>'n\<close> that is left open: it stands for the
  numbers the store holds (binary floating point for the seeded catalogue), and nothing is
  assumed of its arithmetic.  The handlers use the literal \<open>0\<close>, the addition \<open>+\<close> of two such
  numbers and the product of such a number with an integer quantity, which is the parameter
  \<open>mul\<close> below; no law (associativity, exactness) is assumed of any of them.
\<close>

type_synonym objectid = nat
type_synonym timestamp = string

record 'n product_doc =
  p_id :: objectid
  p_name :: string
  p_description :: string
  p_price :: 'n
  p_image :: string
  p_category :: string

record user_doc =
  u_id :: objectid
  u_username :: string
  u_email :: string
  u_password :: string
  u_created_at :: timestamp

record cart_item =
  product_id :: objectid
  quantity :: int

record cart_doc =
  c_id :: objectid
  c_user_id :: objectid
  c_items :: "cart_item list"
  c_updated_at :: timestamp

record 'n order_item =
  oi_product_id :: objectid
  oi_product_name :: string
  oi_quantity :: int
  oi_price :: 'n
  oi_subtotal :: 'n

record 'n order_doc =
  o_id :: objectid
  o_user_id :: objectid
  o_items :: "'n order_item list"
  o_total_amount :: 'n
  o_status :: string
  o_created_at :: timestamp

record 'n store =
  products_collection :: "'n product_doc list"
  users_collection :: "user_doc list"
  carts_collection :: "cart_doc list"
  orders_collection :: "'n order_doc list"

section \<open>What the handlers call but do not define\<close>

text \<open>
  \<^verbatim>\<open>ObjectId.is_valid\<close>, \<^verbatim>\<open>ObjectId\<close> and \<^verbatim>\<open>str\<close> come from the bson library;
  \<^verbatim>\<open>hash_password\<close>, \<^verbatim>\<open>verify_password\<close> and \<^verbatim>\<open>replace_mongo_id\<close> come from the module
  \<^verbatim>\<open>utils\<close>; \<open>mul\<close> is Python's \<^verbatim>\<open>*\<close> between a stored number and an integer.  The
  handlers are parametrised by them.  A store operation may raise; which ones
  do during a request is given by \<open>store_fails\<close>, and an operation that raises ends the request
  (no handler catches anything).  A write that the store refuses, for instance because an
  integer of the document does not fit its 64-bit range, is such an operation.
\<close>

datatype coll = Products | Users | Carts | Orders

datatype store_op = FindOne coll | InsertOne coll | UpdateOne coll

record ('n, 'v) deps =
  is_valid :: "string \<Rightarrow> bool"
  ObjectId :: "string \<Rightarrow> objectid"
  str :: "objectid \<Rightarrow> string"
  hash_password :: "string \<Rightarrow> string"
  verify_password :: "string \<Rightarrow> string \<Rightarrow> bool"
  replace_mongo_id :: "'n product_doc \<Rightarrow> 'v"
  mul :: "'n \<Rightarrow> int \<Rightarrow> 'n"
  store_fails :: "store_op \<Rightarrow> bool"

datatype error = HTTPException nat string | PyMongoError

subsection \<open>Store operations\<close>

text \<open>An inserted document gets an identifier that no document of the collection has.\<close>

definition new_id :: "objectid list \<Rightarrow> objectid" where
  "new_id ids = Suc (fold max ids 0)"

fun update_first :: "('a \<Rightarrow> bool) \<Rightarrow> ('a \<Rightarrow> 'a) \<Rightarrow> 'a list \<Rightarrow> 'a list" where
  "update_first P f [] = []"
| "update_first P f (x # xs) = (if P x then f x # xs else x # update_first P f xs)"

definition find_one_product :: "('n, 'v) deps \<Rightarrow> 'n store \<Rightarrow> objectid \<Rightarrow> error + 'n product_doc option" where
  "find_one_product d st i =
     (if store_fails d (FindOne Products) then Inl PyMongoError
      else Inr (find (\<lambda>p. p_id p = i) (products_collection st)))"

definition find_one_user :: "('n, 'v) deps \<Rightarrow> 'n store \<Rightarrow> string \<Rightarrow> string \<Rightarrow> error + user_doc option" where
  \<comment> \<open>the filter \<^verbatim>\<open>{"$or": [{"username": a}, {"email": b}]}\<close>\<close>
  "find_one_user d st a b =
     (if store_fails d (FindOne Users) then Inl PyMongoError
      else Inr (find (\<lambda>u. u_username u = a \<or> u_email u = b) (users_collection st)))"

definition find_one_cart :: "('n, 'v) deps \<Rightarrow> 'n store \<Rightarrow> objectid \<Rightarrow> error + cart_doc option" where
  \<comment> \<open>the filter \<^verbatim>\<open>{"user_id": uid}\<close>\<close>
  "find_one_cart d st uid =
     (if store_fails d (FindOne Carts) then Inl PyMongoError
      else Inr (find (\<lambda>c. c_user_id c = uid) (carts_collection st)))"

definition insert_one_user :: "('n, 'v) deps \<Rightarrow> 'n store \<Rightarrow> (objectid \<Rightarrow> user_doc) \<Rightarrow> error + objectid \<times> 'n store" where
  "insert_one_user d st doc =
     (if store_fails d (InsertOne Users) then Inl PyMongoError
      else let i = new_id (map u_id (users_collection st))
           in Inr (i, st\<lparr>users_collection := users_collection st @ [doc i]\<rparr>))"

definition insert_one_cart :: "('n, 'v) deps \<Rightarrow> 'n store \<Rightarrow> (objectid \<Rightarrow> cart_doc) \<Rightarrow> error + objectid \<times> 'n store" where
  "insert_one_cart d st doc =
     (if store_fails d (InsertOne Carts) then Inl PyMongoError
      else let i = new_id (map c_id (carts_collection st))
           in Inr (i, st\<lparr>carts_collection := carts_collection st @ [doc i]\<rparr>))"

definition insert_one_order :: "('n, 'v) deps \<Rightarrow> 'n store \<Rightarrow> (objectid \<Rightarrow> 'n order_doc) \<Rightarrow> error + objectid \<times> 'n store" where
  "insert_one_order d st doc =
     (if store_fails d (InsertOne Orders) then Inl PyMongoError
      else let i = new_id (map o_id (orders_collection st))
           in Inr (i, st\<lparr>orders_collection := orders_collection st @ [doc i]\<rparr>))"

definition update_one_cart ::
  "('n, 'v) deps \<Rightarrow> 'n store \<Rightarrow> (cart_doc \<Rightarrow> bool) \<Rightarrow> cart_item list \<Rightarrow> timestamp \<Rightarrow> error + 'n store" where
  \<comment> \<open>\<^verbatim>\<open>update_one(filter, {"$set": {"items": its, "updated_at": t}})\<close>\<close>
  "update_one_cart d st flt its t =
     (if store_fails d (UpdateOne Carts) then Inl PyMongoError
      else Inr (st\<lparr>carts_collection :=
             update_first flt (\<lambda>c. c\<lparr>c_items := its, c_updated_at := t\<rparr>) (carts_collection st)\<rparr>))"

section \<open>The handlers\<close>

text \<open>
  A handler takes the store and returns its response or its error together with the store
  it leaves behind, so that what a failed request did write stays visible.  Each reading of
  the clock (\<^verbatim>\<open>datetime.utcnow().isoformat()\<close>) is an argument.
\<close>

subsection \<open>Registration and login\<close>

record register_response =
  rr_message :: string
  rr_user_id :: string

definition register_user ::
  "('n, 'v) deps \<Rightarrow> 'n store \<Rightarrow> string \<Rightarrow> string \<Rightarrow> string \<Rightarrow> timestamp \<Rightarrow> timestamp
     \<Rightarrow> (error + register_response) \<times> 'n store" where
  "register_user d st username email password now1 now2 =
     (case find_one_user d st username email of
        Inl e \<Rightarrow> (Inl e, st)
      | Inr (Some existing_user) \<Rightarrow>
          (Inl (HTTPException 409 ''Username or email already exists''), st)
      | Inr None \<Rightarrow>
          (case insert_one_user d st
                  (\<lambda>i. \<lparr>u_id = i, u_username = username, u_email = email,
                        u_password = hash_password d password, u_created_at = now1\<rparr>) of
             Inl e \<Rightarrow> (Inl e, st)
           | Inr (inserted_id, st1) \<Rightarrow>
               (case insert_one_cart d st1
                       (\<lambda>i. \<lparr>c_id = i, c_user_id = inserted_id, c_items = [],
                             c_updated_at = now2\<rparr>) of
                  Inl e \<Rightarrow> (Inl e, st1)
                | Inr (_, st2) \<Rightarrow>
                    (Inr \<lparr>rr_message = ''User registered successfully'',
                          rr_user_id = str d inserted_id\<rparr>, st2))))"

record login_response =
  lr_message :: string
  lr_user_id :: string
  lr_username :: string

definition login_user :: "('n, 'v) deps \<Rightarrow> 'n store \<Rightarrow> string \<Rightarrow> string \<Rightarrow> error + login_response" where
  "login_user d st username_or_email password =
     (case find_one_user d st username_or_email username_or_email of
        Inl e \<Rightarrow> Inl e
      | Inr None \<Rightarrow> Inl (HTTPException 401 ''Invalid credentials'')
      | Inr (Some user) \<Rightarrow>
          if \<not> verify_password d password (u_password user)
          then Inl (HTTPException 401 ''Invalid credentials'')
          else Inr \<lparr>lr_message = ''Login successful'', lr_user_id = str d (u_id user),
                    lr_username = u_username user\<rparr>)"

subsection \<open>Adding to the cart\<close>

text \<open>
  The loop over \<^verbatim>\<open>cart["items"]\<close>: the first entry of the product has its quantity increased
  and the loop breaks; the flag is \<^verbatim>\<open>item_exists\<close>.
\<close>

fun add_loop :: "objectid \<Rightarrow> int \<Rightarrow> cart_item list \<Rightarrow> cart_item list \<times> bool" where
  "add_loop pid q [] = ([], False)"
| "add_loop pid q (item # rest) =
     (if product_id item = pid then (item\<lparr>quantity := quantity item + q\<rparr> # rest, True)
      else (case add_loop pid q rest of (rest', item_exists) \<Rightarrow> (item # rest', item_exists)))"

definition merge_items :: "objectid \<Rightarrow> int \<Rightarrow> cart_item list \<Rightarrow> cart_item list" where
  "merge_items pid q its =
     (case add_loop pid q its of
        (its', item_exists) \<Rightarrow>
          if \<not> item_exists then its' @ [\<lparr>product_id = pid, quantity = q\<rparr>] else its')"

definition add_to_cart ::
  "('n, 'v) deps \<Rightarrow> 'n store \<Rightarrow> string \<Rightarrow> string \<Rightarrow> int \<Rightarrow> timestamp \<Rightarrow> (error + string) \<times> 'n store" where
  "add_to_cart d st user_id product_id' quantity' now =
     (if \<not> is_valid d user_id then (Inl (HTTPException 422 ''Invalid user ID''), st)
      else if \<not> is_valid d product_id' then (Inl (HTTPException 422 ''Invalid product ID''), st)
      else
        case find_one_product d st (ObjectId d product_id') of
          Inl e \<Rightarrow> (Inl e, st)
        | Inr None \<Rightarrow> (Inl (HTTPException 404 ''Product not found''), st)
        | Inr (Some product) \<Rightarrow>
            (case find_one_cart d st (ObjectId d user_id) of
               Inl e \<Rightarrow> (Inl e, st)
             | Inr None \<Rightarrow>
                 (case insert_one_cart d st
                         (\<lambda>i. \<lparr>c_id = i, c_user_id = ObjectId d user_id,
                               c_items = [\<lparr>product_id = ObjectId d product_id',
                                           quantity = quantity'\<rparr>],
                               c_updated_at = now\<rparr>) of
                    Inl e \<Rightarrow> (Inl e, st)
                  | Inr (_, st1) \<Rightarrow> (Inr ''Product added to cart successfully'', st1))
             | Inr (Some cart) \<Rightarrow>
                 (case update_one_cart d st (\<lambda>c. c_id c = c_id cart)
                         (merge_items (ObjectId d product_id') quantity' (c_items cart)) now of
                    Inl e \<Rightarrow> (Inl e, st)
                  | Inr st1 \<Rightarrow> (Inr ''Product added to cart successfully'', st1))))"

subsection \<open>Reading the cart\<close>

record ('n, 'v) cart_line =
  cl_product :: 'v
  cl_quantity :: int
  cl_subtotal :: 'n

datatype ('n, 'v) cart_response =
    CartEmpty string "('n, 'v) cart_line list"
  | CartView string "('n, 'v) cart_line list" int

text \<open>The loop of \<^verbatim>\<open>get_cart\<close>; \<open>cart_items\<close> is the list it appends to.\<close>

fun get_cart_loop ::
  "('n, 'v) deps \<Rightarrow> 'n store \<Rightarrow> cart_item list \<Rightarrow> ('n, 'v) cart_line list
     \<Rightarrow> error + ('n, 'v) cart_line list" where
  "get_cart_loop d st [] cart_items = Inr cart_items"
| "get_cart_loop d st (item # rest) cart_items =
     (case find_one_product d st (product_id item) of
        Inl e \<Rightarrow> Inl e
      | Inr None \<Rightarrow> get_cart_loop d st rest cart_items
      | Inr (Some product) \<Rightarrow>
          get_cart_loop d st rest
            (cart_items @ [\<lparr>cl_product = replace_mongo_id d product,
                            cl_quantity = quantity item,
                            cl_subtotal = mul d (p_price product) (quantity item)\<rparr>]))"

definition get_cart :: "('n, 'v) deps \<Rightarrow> 'n store \<Rightarrow> string \<Rightarrow> error + ('n, 'v) cart_response" where
  "get_cart d st user_id =
     (if \<not> is_valid d user_id then Inl (HTTPException 422 ''Invalid user ID'')
      else
        case find_one_cart d st (ObjectId d user_id) of
          Inl e \<Rightarrow> Inl e
        | Inr cart \<Rightarrow>
            if cart = None \<or> c_items (the cart) = [] then Inr (CartEmpty ''Cart is empty'' [])
            else
              (case get_cart_loop d st (c_items (the cart)) [] of
                 Inl e \<Rightarrow> Inl e
               | Inr cart_items \<Rightarrow>
                   Inr (CartView user_id cart_items
                          (sum_list (map quantity (c_items (the cart)))))))"

subsection \<open>Checkout\<close>

record 'n order_summary =
  os_items :: "'n order_item list"
  os_total_amount :: 'n
  os_total_items :: int

record 'n checkout_response =
  cr_message :: string
  cr_order_id :: string
  cr_order_summary :: "'n order_summary"

text \<open>
  The loop of \<^verbatim>\<open>checkout\<close>, with its two accumulators \<^verbatim>\<open>order_items\<close> and
  \<^verbatim>\<open>grand_total\<close>.
\<close>

fun checkout_loop ::
  "('n::plus, 'v) deps \<Rightarrow> 'n store \<Rightarrow> cart_item list \<Rightarrow> 'n order_item list \<Rightarrow> 'n
     \<Rightarrow> error + 'n order_item list \<times> 'n" where
  "checkout_loop d st [] order_items grand_total = Inr (order_items, grand_total)"
| "checkout_loop d st (item # rest) order_items grand_total =
     (case find_one_product d st (product_id item) of
        Inl e \<Rightarrow> Inl e
      | Inr None \<Rightarrow> checkout_loop d st rest order_items grand_total
      | Inr (Some product) \<Rightarrow>
          (let subtotal = mul d (p_price product) (quantity item)
           in checkout_loop d st rest
                (order_items @ [\<lparr>oi_product_id = product_id item,
                                 oi_product_name = p_name product,
                                 oi_quantity = quantity item,
                                 oi_price = p_price product,
                                 oi_subtotal = subtotal\<rparr>])
                (grand_total + subtotal)))"

definition checkout ::
  "('n::{zero,plus}, 'v) deps \<Rightarrow> 'n store \<Rightarrow> string \<Rightarrow> timestamp \<Rightarrow> timestamp
     \<Rightarrow> (error + 'n checkout_response) \<times> 'n store" where
  "checkout d st user_id now1 now2 =
     (if \<not> is_valid d user_id then (Inl (HTTPException 422 ''Invalid user ID''), st)
      else
        case find_one_cart d st (ObjectId d user_id) of
          Inl e \<Rightarrow> (Inl e, st)
        | Inr cart \<Rightarrow>
            if cart = None \<or> c_items (the cart) = []
            then (Inl (HTTPException 400 ''Cart is empty''), st)
            else
              (case checkout_loop d st (c_items (the cart)) [] 0 of
                 Inl e \<Rightarrow> (Inl e, st)
               | Inr (order_items, grand_total) \<Rightarrow>
                   (case insert_one_order d st
                           (\<lambda>i. \<lparr>o_id = i, o_user_id = ObjectId d user_id,
                                 o_items = order_items, o_total_amount = grand_total,
                                 o_status = ''completed'', o_created_at = now1\<rparr>) of
                      Inl e \<Rightarrow> (Inl e, st)
                    | Inr (inserted_id, st1) \<Rightarrow>
                        (case update_one_cart d st1 (\<lambda>c. c_user_id c = ObjectId d user_id)
                                [] now2 of
                           Inl e \<Rightarrow> (Inl e, st1)
                         | Inr st2 \<Rightarrow>
                             (Inr \<lparr>cr_message = ''Checkout successful'',
                                   cr_order_id = str d inserted_id,
                                   cr_order_summary =
                                     \<lparr>os_items = order_items,
                                      os_total_amount = grand_total,
                                      os_total_items = sum_list (map oi_quantity order_items)\<rparr>\<rparr>,
                              st2)))))"

section \<open>The catalogue seeded by \<^verbatim>\<open>db.py\<close>, and stand-ins for the libraries\<close>

text \<open>
  \<^verbatim>\<open>db.py\<close> inserts five sample products when the collection is empty; here they get the
  identifiers 1 to 5, and each price is the decimal that the source writes.
\<close>

definition sample_products :: "rat product_doc list" where
  "sample_products =
     [\<lparr>p_id = 1, p_name = ''Laptop'', p_description = ''High-performance gaming laptop'',
       p_price = 99999 / 100, p_image = ''https://example.com/laptop.jpg'',
       p_category = ''Electronics''\<rparr>,
      \<lparr>p_id = 2, p_name = ''Smartphone'', p_description = ''Latest smartphone with great camera'',
       p_price = 69999 / 100, p_image = ''https://example.com/phone.jpg'',
       p_category = ''Electronics''\<rparr>,
      \<lparr>p_id = 3, p_name = ''Headphones'', p_description = ''Wireless noise-cancelling headphones'',
       p_price = 19999 / 100, p_image = ''https://example.com/headphones.jpg'',
       p_category = ''Electronics''\<rparr>,
      \<lparr>p_id = 4, p_name = ''T-Shirt'', p_description = ''Cotton t-shirt with cool design'',
       p_price = 2999 / 100, p_image = ''https://example.com/tshirt.jpg'',
       p_category = ''Clothing''\<rparr>,
      \<lparr>p_id = 5, p_name = ''Coffee Mug'', p_description = ''Ceramic coffee mug with handle'',
       p_price = 1299 / 100, p_image = ''https://example.com/mug.jpg'',
       p_category = ''Home''\<rparr>]"

definition seed :: "rat store \<Rightarrow> rat store" where
  "seed st = (if length (products_collection st) = 0
              then st\<lparr>products_collection := sample_products\<rparr> else st)"

text \<open>
  Stand-ins used to run the handlers on concrete requests: an identifier is well formed when
  it is 24 hexadecimal digits, and its value is the number they write; a hash is recognisable
  and verified by comparison; numbers are rationals with their exact arithmetic; no store
  operation raises.  The properties below are proved for every choice of these, not for the
  stand-ins.
\<close>

definition hexdigit :: "char \<Rightarrow> bool" where
  "hexdigit c = (c \<in> set ''0123456789abcdefABCDEF'')"

definition hexval :: "char \<Rightarrow> nat" where
  "hexval c =
     (let n = of_char c in if n < 58 then n - 48 else if n < 71 then n - 55 else n - 87)"

definition test_deps :: "(rat, rat product_doc) deps" where
  "test_deps =
     \<lparr>is_valid = (\<lambda>s. length s = 24 \<and> list_all hexdigit s),
      ObjectId = (\<lambda>s. fold (\<lambda>c n. 16 * n + hexval c) s 0),
      str = (\<lambda>i. replicate i CHR ''i''),
      hash_password = (\<lambda>p. ''$'' @ p),
      verify_password = (\<lambda>p h. h = ''$'' @ p),
      replace_mongo_id = (\<lambda>p. p),
      mul = (\<lambda>p q. p * of_int q),
      store_fails = (\<lambda>_. False)\<rparr>"

text \<open>
  A store to run requests on: the seeded catalogue, one registered user (identifier 10) whose
  cart holds two T-shirts and a mug, and a second user (identifier 11) whose cart refers to
  products 8 and 9, which the catalogue does not have.
\<close>

definition sample_cart :: cart_doc where
  "sample_cart =
     \<lparr>c_id = 1, c_user_id = 10,
      c_items = [\<lparr>product_id = 4, quantity = 2\<rparr>, \<lparr>product_id = 5, quantity = 1\<rparr>],
      c_updated_at = ''2025-01-01T10:00:00''\<rparr>"

definition stale_cart :: cart_doc where
  "stale_cart =
     \<lparr>c_id = 2, c_user_id = 11,
      c_items = [\<lparr>product_id = 8, quantity = 3\<rparr>, \<lparr>product_id = 9, quantity = 1\<rparr>],
      c_updated_at = ''2025-01-02T10:00:00''\<rparr>"

definition sample_store :: "rat store" where
  "sample_store =
     seed \<lparr>products_collection = [],
           users_collection =
             [\<lparr>u_id = 10, u_username = ''ama'', u_email = ''ama@example.com'',
               u_password = ''$secret'', u_created_at = ''2025-01-01T09:00:00''\<rparr>,
              \<lparr>u_id = 11, u_username = ''kofi'', u_email = ''kofi@example.com'',
               u_password = ''$hidden'', u_created_at = ''2025-01-02T09:00:00''\<rparr>],
           carts_collection = [sample_cart, stale_cart],
           orders_collection = []\<rparr>"


text \<open>The same stand-ins, with the orders collection refusing every insert.\<close>

definition orders_down :: "(rat, rat product_doc) deps" where
  "orders_down = test_deps\<lparr>store_fails := (\<lambda>op. op = InsertOne Orders)\<rparr>"

text \<open>
  The sample store after product 5 has left the catalogue: the first cart now refers to a
  product that is gone.
\<close>

definition shrunk_store :: "rat store" where
  "shrunk_store = sample_store\<lparr>products_collection := take 4 sample_products\<rparr>"

text \<open>
  The store of the worked example: one product of price 10 and a cart holding two of it.
\<close>

definition example_store :: "rat store" where
  "example_store =
     \<lparr>products_collection =
        [\<lparr>p_id = 1, p_name = ''productA'', p_description = '''', p_price = 10,
          p_image = '''', p_category = ''''\<rparr>],
      users_collection = [],
      carts_collection =
        [\<lparr>c_id = 1, c_user_id = 10, c_items = [\<lparr>product_id = 1, quantity = 2\<rparr>],
          c_updated_at = ''t0''\<rparr>],
      orders_collection = []\<rparr>"

section \<open>Notions used to state the properties\<close>

text \<open>The line that checkout snapshots for a cart entry, when the entry's product resolves.\<close>

definition order_line :: "('n, 'v) deps \<Rightarrow> 'n store \<Rightarrow> cart_item \<Rightarrow> 'n order_item option" where
  "order_line d st it =
     (case find (\<lambda>p. p_id p = product_id it) (products_collection st) of
        None \<Rightarrow> None
      | Some p \<Rightarrow> Some \<lparr>oi_product_id = product_id it, oi_product_name = p_name p,
                        oi_quantity = quantity it, oi_price = p_price p,
                        oi_subtotal = mul d (p_price p) (quantity it)\<rparr>)"

text \<open>
  The items list that the handlers read for a user: that of the first cart of the user, and
  no items when the user has no cart.
\<close>

definition user_items :: "'n store \<Rightarrow> objectid \<Rightarrow> cart_item list" where
  "user_items st uid =
     (case find (\<lambda>c. c_user_id c = uid) (carts_collection st) of
        None \<Rightarrow> [] | Some cart \<Rightarrow> c_items cart)"

text \<open>The quantity stored for a product in the user's cart, if the cart has an entry for it.\<close>

definition stored_quantity :: "'n store \<Rightarrow> objectid \<Rightarrow> objectid \<Rightarrow> int option" where
  "stored_quantity st uid pid =
     map_option quantity (find (\<lambda>it. product_id it = pid) (user_items st uid))"

text \<open>The invariant of the data model: no cart has two entries for one product.\<close>

definition carts_merged :: "'n store \<Rightarrow> bool" where
  "carts_merged st = list_all (\<lambda>c. distinct (map product_id (c_items c))) (carts_collection st)"

text \<open>The line that \<open>get_cart\<close> returns for a cart entry, when the entry's product resolves.\<close>

definition cart_view_line :: "('n, 'v) deps \<Rightarrow> 'n store \<Rightarrow> cart_item \<Rightarrow> ('n, 'v) cart_line option" where
  "cart_view_line d st it =
     (case find (\<lambda>p. p_id p = product_id it) (products_collection st) of
        None \<Rightarrow> None
      | Some p \<Rightarrow> Some \<lparr>cl_product = replace_mongo_id d p, cl_quantity = quantity it,
                        cl_subtotal = mul d (p_price p) (quantity it)\<rparr>)"

section \<open>Lemmas about the store operations and the loops\<close>

lemma fold_max_ge: "m \<le> fold max ids (m::nat)"
  by (induction ids arbitrary: m) (auto intro: order_trans[OF max.cobounded2])

lemma fold_max_mem: "i \<in> set ids \<Longrightarrow> i \<le> fold max ids (m::nat)"
proof (induction ids arbitrary: m)
  case Nil
  then show ?case by simp
next
  case (Cons a ids)
  show ?case
  proof (cases "i = a")
    case True
    have "a \<le> max a m" by simp
    also have "\<dots> \<le> fold max ids (max a m)" by (rule fold_max_ge)
    finally show ?thesis using True by simp
  next
    case False
    with Cons show ?thesis by simp
  qed
qed

lemma new_id_fresh: "new_id ids \<notin> set ids"
  using fold_max_mem[of "new_id ids" ids 0] by (auto simp: new_id_def)

lemma checkout_loop_eq:
  assumes "\<not> store_fails d (FindOne Products)"
  shows "checkout_loop d st its acc tot =
           Inr (acc @ List.map_filter (order_line d st) its,
                foldl (+) tot (map oi_subtotal (List.map_filter (order_line d st) its)))"
  using assms
proof (induction its arbitrary: acc tot)
  case Nil
  then show ?case by simp
next
  case (Cons it its)
  show ?case
  proof (cases "find (\<lambda>p. p_id p = product_id it) (products_collection st)")
    case None
    then show ?thesis using Cons
      by (simp add: find_one_product_def order_line_def)
  next
    case (Some p)
    then show ?thesis using Cons
      by (simp add: find_one_product_def order_line_def Let_def)
  qed
qed

lemma map_filter_all2:
  assumes "\<forall>it \<in> set its. \<exists>l. f it = Some l"
  shows "list_all2 (\<lambda>it l. f it = Some l) its (List.map_filter f its)"
  using assms by (induction its) auto

lemma order_line_Some:
  "order_line d st it = Some l \<longleftrightarrow>
     (\<exists>p. find (\<lambda>p. p_id p = product_id it) (products_collection st) = Some p \<and>
          l = \<lparr>oi_product_id = product_id it, oi_product_name = p_name p,
               oi_quantity = quantity it, oi_price = p_price p,
               oi_subtotal = mul d (p_price p) (quantity it)\<rparr>)"
  by (auto simp: order_line_def split: option.splits)

lemma sample_store_products [simp]: "products_collection sample_store = sample_products"
  by (simp add: sample_store_def seed_def)

lemma sample_store_carts [simp]: "carts_collection sample_store = [sample_cart, stale_cart]"
  by (simp add: sample_store_def seed_def)

lemma ObjectId_a [simp]: "ObjectId test_deps ''00000000000000000000000a'' = 10"
  by (simp add: test_deps_def hexval_def)

lemma ObjectId_b [simp]: "ObjectId test_deps ''00000000000000000000000b'' = 11"
  by (simp add: test_deps_def hexval_def)

lemma is_valid_a [simp]: "is_valid test_deps ''00000000000000000000000a''"
  by (simp add: test_deps_def hexdigit_def)

lemma is_valid_b [simp]: "is_valid test_deps ''00000000000000000000000b''"
  by (simp add: test_deps_def hexdigit_def)

lemma test_deps_no_failure [simp]: "\<not> store_fails test_deps op"
  by (simp add: test_deps_def)

lemma find_update_first:
  assumes "find P xs = Some x" and "P (f x)"
  shows "find P (update_first P f xs) = Some (f x)"
  using assms by (induction xs) (auto split: if_splits)

lemma map_filter_none:
  assumes "\<forall>it \<in> set its. f it = None"
  shows "List.map_filter f its = []"
  using assms by (induction its) auto

lemma ObjectId_c [simp]: "ObjectId test_deps ''00000000000000000000000c'' = 12"
  by (simp add: test_deps_def hexval_def)

lemma is_valid_c [simp]: "is_valid test_deps ''00000000000000000000000c''"
  by (simp add: test_deps_def hexdigit_def)

lemma sample_store_orders [simp]: "orders_collection sample_store = []"
  by (simp add: sample_store_def seed_def)

section \<open>The worked example\<close>

text \<open>
  A cart with two units of a product of price 10: \<open>get_cart\<close> gives the subtotal 20 and
  \<open>total_items\<close> 2; checkout gives an order of total 20 with that one line, and empties the
  cart.
\<close>

lemma example_get_cart:
  "get_cart test_deps example_store ''00000000000000000000000a'' =
     Inr (CartView ''00000000000000000000000a''
            [\<lparr>cl_product = \<lparr>p_id = 1, p_name = ''productA'', p_description = '''', p_price = 10,
                            p_image = '''', p_category = ''''\<rparr>,
              cl_quantity = 2, cl_subtotal = 20\<rparr>] 2)"
  by (simp add: get_cart_def find_one_cart_def find_one_product_def example_store_def test_deps_def
      hexdigit_def hexval_def)

lemma example_checkout:
  "checkout test_deps example_store ''00000000000000000000000a'' ''t1'' ''t2'' =
     (Inr \<lparr>cr_message = ''Checkout successful'', cr_order_id = ''i'',
           cr_order_summary =
             \<lparr>os_items = [\<lparr>oi_product_id = 1, oi_product_name = ''productA'', oi_quantity = 2,
                           oi_price = 10, oi_subtotal = 20\<rparr>],
              os_total_amount = 20, os_total_items = 2\<rparr>\<rparr>,
      example_store
        \<lparr>carts_collection :=
           [\<lparr>c_id = 1, c_user_id = 10, c_items = [], c_updated_at = ''t2''\<rparr>],
         orders_collection :=
           [\<lparr>o_id = 1, o_user_id = 10,
             o_items = [\<lparr>oi_product_id = 1, oi_product_name = ''productA'', oi_quantity = 2,
                          oi_price = 10, oi_subtotal = 20\<rparr>],
             o_total_amount = 20, o_status = ''completed'', o_created_at = ''t1''\<rparr>]\<rparr>)"
  by (simp add: checkout_def find_one_cart_def find_one_product_def insert_one_order_def
      update_one_cart_def new_id_def Let_def example_store_def test_deps_def hexdigit_def hexval_def)

section \<open>Checkout of a cart whose products all resolve\<close>

text \<open>
  Claim C1.  Take a request whose identifier is well formed, whose cart (the first one of the
  user) has a non-empty items list (checkout's precondition) and each of whose entries names
  a product of the catalogue, and let no store operation raise.  Then checkout succeeds and
  appends one order to the orders collection; the order has as many lines as the cart has
  entries; line by line, the product and the quantity are those of the cart entry, the price
  is the product's current price and the subtotal is that price times the stored quantity;
  the order's \<open>total_amount\<close> is the sum of the subtotals of its lines, added up from \<open>0\<close>
  in the order of the lines as the handler does; and the response carries the same lines and
  total, with \<open>total_items\<close> the sum of the quantities of the lines.  ``Times'' and ``sum''
  are the handler's own operations on stored numbers (\<open>mul\<close> and \<open>+\<close>), whatever their
  rounding; the quantities are integers and add up exactly.  The entries need not even name
  distinct products.
\<close>

theorem checkout_creates_order:
  assumes nofail: "\<forall>op. \<not> store_fails d op"
    and valid: "is_valid d user_id"
    and cart: "find (\<lambda>c. c_user_id c = ObjectId d user_id) (carts_collection st) = Some cart"
    and nonempty: "c_items cart \<noteq> []"
    and resolves: "\<forall>it \<in> set (c_items cart).
                     \<exists>p. find (\<lambda>p. p_id p = product_id it) (products_collection st) = Some p"
  shows "\<exists>resp st' ord.
           checkout d st user_id now1 now2 = (Inr resp, st') \<and>
           orders_collection st' = orders_collection st @ [ord] \<and>
           length (o_items ord) = length (c_items cart) \<and>
           list_all2
             (\<lambda>it l. \<exists>p. find (\<lambda>p. p_id p = product_id it) (products_collection st) = Some p \<and>
                          oi_product_id l = product_id it \<and> oi_quantity l = quantity it \<and>
                          oi_price l = p_price p \<and>
                          oi_subtotal l = mul d (p_price p) (quantity it))
             (c_items cart) (o_items ord) \<and>
           o_total_amount ord = foldl (+) 0 (map oi_subtotal (o_items ord)) \<and>
           os_items (cr_order_summary resp) = o_items ord \<and>
           os_total_amount (cr_order_summary resp) = o_total_amount ord \<and>
           os_total_items (cr_order_summary resp) = sum_list (map oi_quantity (o_items ord))"
proof -
  let ?ls = "List.map_filter (order_line d st) (c_items cart)"
  let ?ord = "\<lparr>o_id = new_id (map o_id (orders_collection st)), o_user_id = ObjectId d user_id,
               o_items = ?ls, o_total_amount = foldl (+) 0 (map oi_subtotal ?ls),
               o_status = ''completed'', o_created_at = now1\<rparr>"
  have loop: "checkout_loop d st (c_items cart) [] 0 = Inr (?ls, foldl (+) 0 (map oi_subtotal ?ls))"
    using checkout_loop_eq[of d st "c_items cart" "[]" 0] nofail by simp
  have "\<forall>it \<in> set (c_items cart). \<exists>l. order_line d st it = Some l"
    using resolves by (auto simp: order_line_def)
  then have all2: "list_all2 (\<lambda>it l. order_line d st it = Some l) (c_items cart) ?ls"
    by (rule map_filter_all2)
  have len: "length ?ls = length (c_items cart)"
    using all2 by (simp add: list_all2_lengthD)
  have lines:
    "list_all2
       (\<lambda>it l. \<exists>p. find (\<lambda>p. p_id p = product_id it) (products_collection st) = Some p \<and>
                    oi_product_id l = product_id it \<and> oi_quantity l = quantity it \<and>
                    oi_price l = p_price p \<and>
                    oi_subtotal l = mul d (p_price p) (quantity it))
       (c_items cart) ?ls"
    using all2 by (rule list_all2_mono) (auto simp: order_line_Some)
  have "\<exists>resp st'. checkout d st user_id now1 now2 = (Inr resp, st') \<and>
           orders_collection st' = orders_collection st @ [?ord] \<and>
           os_items (cr_order_summary resp) = ?ls \<and>
           os_total_amount (cr_order_summary resp) = foldl (+) 0 (map oi_subtotal ?ls) \<and>
           os_total_items (cr_order_summary resp) = sum_list (map oi_quantity ?ls)"
    using nofail valid cart nonempty loop
    by (simp add: checkout_def find_one_cart_def insert_one_order_def update_one_cart_def Let_def)
  then obtain resp st' where r: "checkout d st user_id now1 now2 = (Inr resp, st')"
    "orders_collection st' = orders_collection st @ [?ord]"
    "os_items (cr_order_summary resp) = ?ls"
    "os_total_amount (cr_order_summary resp) = foldl (+) 0 (map oi_subtotal ?ls)"
    "os_total_items (cr_order_summary resp) = sum_list (map oi_quantity ?ls)"
    by blast
  show ?thesis
    apply (rule exI[of _ resp], rule exI[of _ st'], rule exI[of _ ?ord])
    using r len lines by simp
qed

theorem checkout_creates_order_witness:
  "(\<forall>op. \<not> store_fails test_deps op) \<and>
   is_valid test_deps ''00000000000000000000000a'' \<and>
   find (\<lambda>c. c_user_id c = ObjectId test_deps ''00000000000000000000000a'')
     (carts_collection sample_store) = Some sample_cart \<and>
   c_items sample_cart \<noteq> [] \<and>
   list_all (\<lambda>it. \<exists>p. find (\<lambda>p. p_id p = product_id it) (products_collection sample_store) = Some p)
     (c_items sample_cart) \<and>
   (\<exists>resp st' ord.
      checkout test_deps sample_store ''00000000000000000000000a'' ''t1'' ''t2'' = (Inr resp, st') \<and>
      orders_collection st' = orders_collection sample_store @ [ord] \<and>
      length (o_items ord) = 2 \<and>
      o_total_amount ord = foldl (+) 0 (map oi_subtotal (o_items ord)) \<and>
      os_total_items (cr_order_summary resp) = sum_list (map oi_quantity (o_items ord)))"
proof -
  have h1: "\<forall>op. \<not> store_fails test_deps op" by simp
  have h2: "is_valid test_deps ''00000000000000000000000a''" by simp
  have h3: "find (\<lambda>c. c_user_id c = ObjectId test_deps ''00000000000000000000000a'')
     (carts_collection sample_store) = Some sample_cart"
    by (simp add: sample_cart_def)
  have h4: "c_items sample_cart \<noteq> []" by (simp add: sample_cart_def)
  have h5: "\<forall>it \<in> set (c_items sample_cart).
      \<exists>p. find (\<lambda>p. p_id p = product_id it) (products_collection sample_store) = Some p"
    by (simp add: sample_cart_def sample_products_def)
  have len: "length (c_items sample_cart) = 2" by (simp add: sample_cart_def)
  have h5': "list_all (\<lambda>it. \<exists>p. find (\<lambda>p. p_id p = product_id it) (products_collection sample_store) = Some p)
     (c_items sample_cart)"
    using h5 by (simp add: list_all_iff)
  from checkout_creates_order[OF h1 h2 h3 h4 h5, of "''t1''" "''t2''"] h1 h2 h3 h4 h5' len
  show ?thesis by auto
qed

lemma checkout_sample_carts:
  "carts_collection (snd (checkout test_deps sample_store ''00000000000000000000000a'' ''t1'' ''t2'')) =
     [sample_cart\<lparr>c_items := [], c_updated_at := ''t2''\<rparr>, stale_cart]"
  by (simp add: checkout_def find_one_cart_def find_one_product_def insert_one_order_def
      update_one_cart_def Let_def sample_cart_def sample_products_def)

section \<open>Checkout of a cart all of whose products are gone\<close>

text \<open>
  Claim C9.  When the cart is not empty but none of its entries names a product of the
  catalogue (and the identifier is well formed and no store operation raises), checkout does
  not fail: it appends an order of the user with no lines and \<open>total_amount\<close> 0, answers
  with no lines, \<open>total_amount\<close> 0 and \<open>total_items\<close> 0, and clears the cart all the same:
  the cart collection is rewritten by the clearing update, after which the user's cart is
  the old one with its items emptied and its timestamp refreshed.
\<close>

theorem checkout_all_stale:
  assumes nofail: "\<forall>op. \<not> store_fails d op"
    and valid: "is_valid d user_id"
    and cart: "find (\<lambda>c. c_user_id c = ObjectId d user_id) (carts_collection st) = Some cart"
    and nonempty: "c_items cart \<noteq> []"
    and stale: "\<forall>it \<in> set (c_items cart).
                  find (\<lambda>p. p_id p = product_id it) (products_collection st) = None"
  shows "\<exists>resp st' ord.
           checkout d st user_id now1 now2 = (Inr resp, st') \<and>
           orders_collection st' = orders_collection st @ [ord] \<and>
           o_user_id ord = ObjectId d user_id \<and> o_items ord = [] \<and> o_total_amount ord = 0 \<and>
           os_items (cr_order_summary resp) = [] \<and>
           os_total_amount (cr_order_summary resp) = 0 \<and>
           os_total_items (cr_order_summary resp) = 0 \<and>
           carts_collection st' =
             update_first (\<lambda>c. c_user_id c = ObjectId d user_id)
               (\<lambda>c. c\<lparr>c_items := [], c_updated_at := now2\<rparr>) (carts_collection st) \<and>
           find (\<lambda>c. c_user_id c = ObjectId d user_id) (carts_collection st') =
             Some (cart\<lparr>c_items := [], c_updated_at := now2\<rparr>)"
proof -
  have "\<forall>it \<in> set (c_items cart). order_line d st it = None"
    using stale by (simp add: order_line_def)
  then have none: "List.map_filter (order_line d st) (c_items cart) = []"
    by (rule map_filter_none)
  have loop: "checkout_loop d st (c_items cart) [] 0 = Inr ([], 0)"
    using checkout_loop_eq[of d st "c_items cart" "[]" 0] nofail none by simp
  have cleared: "find (\<lambda>c. c_user_id c = ObjectId d user_id)
           (update_first (\<lambda>c. c_user_id c = ObjectId d user_id)
               (\<lambda>c. c\<lparr>c_items := [], c_updated_at := now2\<rparr>) (carts_collection st)) =
             Some (cart\<lparr>c_items := [], c_updated_at := now2\<rparr>)"
    using cart by (rule find_update_first) (use cart in \<open>auto simp: find_Some_iff\<close>)
  show ?thesis
    using nofail valid cart nonempty loop cleared
    by (simp add: checkout_def find_one_cart_def insert_one_order_def update_one_cart_def Let_def)
qed

theorem checkout_all_stale_witness:
  "(\<forall>op. \<not> store_fails test_deps op) \<and>
   is_valid test_deps ''00000000000000000000000b'' \<and>
   find (\<lambda>c. c_user_id c = ObjectId test_deps ''00000000000000000000000b'')
     (carts_collection sample_store) = Some stale_cart \<and>
   c_items stale_cart \<noteq> [] \<and>
   list_all (\<lambda>it. find (\<lambda>p. p_id p = product_id it) (products_collection sample_store) = None)
     (c_items stale_cart) \<and>
   (\<exists>resp st' ord.
      checkout test_deps sample_store ''00000000000000000000000b'' ''t1'' ''t2'' = (Inr resp, st') \<and>
      orders_collection st' = [ord] \<and> o_items ord = [] \<and> o_total_amount ord = 0 \<and>
      os_total_items (cr_order_summary resp) = 0 \<and>
      find (\<lambda>c. c_user_id c = 11) (carts_collection st') =
        Some (stale_cart\<lparr>c_items := [], c_updated_at := ''t2''\<rparr>))"
proof -
  have h1: "\<forall>op. \<not> store_fails test_deps op" by simp
  have h2: "is_valid test_deps ''00000000000000000000000b''" by simp
  have h3: "find (\<lambda>c. c_user_id c = ObjectId test_deps ''00000000000000000000000b'')
     (carts_collection sample_store) = Some stale_cart"
    by (simp add: sample_cart_def stale_cart_def)
  have h4: "c_items stale_cart \<noteq> []" by (simp add: stale_cart_def)
  have h5: "\<forall>it \<in> set (c_items stale_cart).
      find (\<lambda>p. p_id p = product_id it) (products_collection sample_store) = None"
    by (simp add: stale_cart_def sample_products_def)
  have h5': "list_all (\<lambda>it. find (\<lambda>p. p_id p = product_id it) (products_collection sample_store) = None)
     (c_items stale_cart)"
    using h5 by (simp add: list_all_iff)
  from checkout_all_stale[OF h1 h2 h3 h4 h5, of "''t1''" "''t2''"] h1 h2 h3 h4 h5'
  show ?thesis by auto
qed

section \<open>Failed checkouts\<close>

text \<open>
  Claim C3.  (1) For a well-formed identifier, when the user has no cart or the cart's items
  list is empty (and the cart lookup itself does not raise), checkout fails with status 400
  and the message ``Cart is empty'', and the store is exactly the one it started from.
  (2) When the insert of the order raises, checkout fails and the store is exactly the one
  it started from; in particular the cart is not cleared.  (3) The order is written before
  the cart is cleared: whenever a checkout has changed the cart collection, it has appended
  an order.
\<close>

theorem checkout_no_partial_effect:
  "(is_valid d user_id \<and> \<not> store_fails d (FindOne Carts) \<and>
      (case find (\<lambda>c. c_user_id c = ObjectId d user_id) (carts_collection st) of
         None \<Rightarrow> True | Some cart \<Rightarrow> c_items cart = [])
    \<longrightarrow> checkout d st user_id now1 now2 = (Inl (HTTPException 400 ''Cart is empty''), st)) \<and>
   (store_fails d (InsertOne Orders)
    \<longrightarrow> (\<exists>e. checkout d st user_id now1 now2 = (Inl e, st))) \<and>
   (carts_collection (snd (checkout d st user_id now1 now2)) \<noteq> carts_collection st
    \<longrightarrow> (\<exists>ord. orders_collection (snd (checkout d st user_id now1 now2)) =
                 orders_collection st @ [ord]))"
proof (intro conjI impI)
  assume "is_valid d user_id \<and> \<not> store_fails d (FindOne Carts) \<and>
      (case find (\<lambda>c. c_user_id c = ObjectId d user_id) (carts_collection st) of
         None \<Rightarrow> True | Some cart \<Rightarrow> c_items cart = [])"
  then show "checkout d st user_id now1 now2 = (Inl (HTTPException 400 ''Cart is empty''), st)"
    by (auto simp: checkout_def find_one_cart_def split: option.splits)
next
  assume "store_fails d (InsertOne Orders)"
  then show "\<exists>e. checkout d st user_id now1 now2 = (Inl e, st)"
    by (simp add: checkout_def insert_one_order_def split: sum.splits prod.splits)
next
  assume "carts_collection (snd (checkout d st user_id now1 now2)) \<noteq> carts_collection st"
  then show "\<exists>ord. orders_collection (snd (checkout d st user_id now1 now2)) =
                 orders_collection st @ [ord]"
    by (auto simp: checkout_def insert_one_order_def update_one_cart_def Let_def
        split: sum.splits prod.splits if_splits)
qed

theorem checkout_no_partial_effect_witness:
  "is_valid test_deps ''00000000000000000000000c'' \<and>
   \<not> store_fails test_deps (FindOne Carts) \<and>
   find (\<lambda>c. c_user_id c = ObjectId test_deps ''00000000000000000000000c'')
     (carts_collection sample_store) = None \<and>
   checkout test_deps sample_store ''00000000000000000000000c'' ''t1'' ''t2'' =
     (Inl (HTTPException 400 ''Cart is empty''), sample_store) \<and>
   store_fails orders_down (InsertOne Orders) \<and>
   (\<exists>e. checkout orders_down sample_store ''00000000000000000000000a'' ''t1'' ''t2'' =
      (Inl e, sample_store)) \<and>
   carts_collection (snd (checkout test_deps sample_store ''00000000000000000000000a'' ''t1'' ''t2''))
     \<noteq> carts_collection sample_store \<and>
   (\<exists>ord. orders_collection
            (snd (checkout test_deps sample_store ''00000000000000000000000a'' ''t1'' ''t2'')) =
          orders_collection sample_store @ [ord])"
proof -
  have a: "is_valid test_deps ''00000000000000000000000c'' \<and>
     \<not> store_fails test_deps (FindOne Carts) \<and>
     find (\<lambda>c. c_user_id c = ObjectId test_deps ''00000000000000000000000c'')
       (carts_collection sample_store) = None"
    by (simp add: sample_cart_def stale_cart_def)
  have b: "store_fails orders_down (InsertOne Orders)"
    by (simp add: orders_down_def)
  have c: "carts_collection (snd (checkout test_deps sample_store ''00000000000000000000000a'' ''t1'' ''t2''))
     \<noteq> carts_collection sample_store"
    by (simp add: checkout_sample_carts sample_cart_def)
  from a checkout_no_partial_effect[of test_deps "''00000000000000000000000c''" sample_store "''t1''" "''t2''"]
  have ra: "checkout test_deps sample_store ''00000000000000000000000c'' ''t1'' ''t2'' =
     (Inl (HTTPException 400 ''Cart is empty''), sample_store)"
    by simp
  from b checkout_no_partial_effect[of orders_down "''00000000000000000000000a''" sample_store "''t1''" "''t2''"]
  have rb: "\<exists>e. checkout orders_down sample_store ''00000000000000000000000a'' ''t1'' ''t2'' =
      (Inl e, sample_store)"
    by blast
  from c checkout_no_partial_effect[of test_deps "''00000000000000000000000a''" sample_store "''t1''" "''t2''"]
  have rc: "\<exists>ord. orders_collection
            (snd (checkout test_deps sample_store ''00000000000000000000000a'' ''t1'' ''t2'')) =
          orders_collection sample_store @ [ord]"
    by blast
  from a b c ra rb rc show ?thesis by blast
qed

text \<open>
  The other order of failure is not excluded by the handler: when the order has been written
  and the clearing update raises, the order stays and the cart keeps its items.
\<close>

lemma checkout_clearing_failure:
  assumes "is_valid d user_id"
    and "\<not> store_fails d (FindOne Carts)" "\<not> store_fails d (FindOne Products)"
      "\<not> store_fails d (InsertOne Orders)" "store_fails d (UpdateOne Carts)"
    and "find (\<lambda>c. c_user_id c = ObjectId d user_id) (carts_collection st) = Some cart"
    and "c_items cart \<noteq> []"
  shows "\<exists>ord. checkout d st user_id now1 now2 =
           (Inl PyMongoError, st\<lparr>orders_collection := orders_collection st @ [ord]\<rparr>)"
proof -
  have "checkout d st user_id now1 now2 =
     (Inl PyMongoError,
      st\<lparr>orders_collection := orders_collection st @
           [\<lparr>o_id = new_id (map o_id (orders_collection st)), o_user_id = ObjectId d user_id,
             o_items = List.map_filter (order_line d st) (c_items cart),
             o_total_amount =
               foldl (+) 0 (map oi_subtotal (List.map_filter (order_line d st) (c_items cart))),
             o_status = ''completed'', o_created_at = now1\<rparr>]\<rparr>)"
    using assms
    by (simp add: checkout_def find_one_cart_def checkout_loop_eq insert_one_order_def
        update_one_cart_def Let_def)
  then show ?thesis by blast
qed

section \<open>Lemmas about adding to a cart\<close>

lemma add_loop_eq:
  "add_loop pid q its =
     (update_first (\<lambda>it. product_id it = pid) (\<lambda>it. it\<lparr>quantity := quantity it + q\<rparr>) its,
      pid \<in> product_id ` set its)"
  by (induction its) auto

lemma update_first_absent: "\<forall>x \<in> set xs. \<not> P x \<Longrightarrow> update_first P f xs = xs"
  by (induction xs) auto

lemma update_first_distinct_key:
  assumes "distinct (map k xs)"
  shows "update_first (\<lambda>x. k x = a) f xs = map (\<lambda>x. if k x = a then f x else x) xs"
  using assms
proof (induction xs)
  case Nil
  then show ?case by simp
next
  case (Cons x xs)
  show ?case
  proof (cases "k x = a")
    case True
    then have "\<forall>y \<in> set xs. k y \<noteq> a" using Cons.prems by (auto simp: image_iff)
    then have "map (\<lambda>x. if k x = a then f x else x) xs = xs"
      by (simp add: map_idI)
    then show ?thesis using True by simp
  next
    case False
    then show ?thesis using Cons by simp
  qed
qed

lemma map_key_update_first:
  assumes "\<And>x. k (f x) = k x"
  shows "map k (update_first P f xs) = map k xs"
  using assms by (induction xs) auto

lemma merge_items_absent:
  "pid \<notin> product_id ` set its \<Longrightarrow> merge_items pid q its = its @ [\<lparr>product_id = pid, quantity = q\<rparr>]"
proof -
  assume "pid \<notin> product_id ` set its"
  then have "\<forall>it \<in> set its. \<not> product_id it = pid" by auto
  then have "update_first (\<lambda>it. product_id it = pid) (\<lambda>it. it\<lparr>quantity := quantity it + q\<rparr>) its = its"
    by (rule update_first_absent)
  then show ?thesis using \<open>pid \<notin> product_id ` set its\<close>
    by (simp add: merge_items_def add_loop_eq)
qed

lemma merge_items_present:
  "pid \<in> product_id ` set its \<Longrightarrow>
   merge_items pid q its =
     update_first (\<lambda>it. product_id it = pid) (\<lambda>it. it\<lparr>quantity := quantity it + q\<rparr>) its"
  by (simp add: merge_items_def add_loop_eq)

lemma merge_items_ids:
  "map product_id (merge_items pid q its) =
     (if pid \<in> product_id ` set its then map product_id its else map product_id its @ [pid])"
  by (simp add: merge_items_absent merge_items_present map_key_update_first)

lemma merge_items_distinct:
  "distinct (map product_id its) \<Longrightarrow> distinct (map product_id (merge_items pid q its))"
  by (simp add: merge_items_ids)

lemma find_update_by_id:
  assumes "find (\<lambda>c. c_user_id c = uid) cs = Some cart"
    and "distinct (map c_id cs)"
    and "\<And>c. c_user_id (f c) = c_user_id c"
  shows "find (\<lambda>c. c_user_id c = uid) (update_first (\<lambda>c. c_id c = c_id cart) f cs) = Some (f cart)"
  using assms(1,2)
proof (induction cs)
  case Nil
  then show ?case by simp
next
  case (Cons c cs)
  show ?case
  proof (cases "c_user_id c = uid")
    case True
    then show ?thesis using Cons.prems assms(3) by simp
  next
    case False
    then have f: "find (\<lambda>c. c_user_id c = uid) cs = Some cart" using Cons.prems by simp
    then have "cart \<in> set cs" by (auto simp: find_Some_iff)
    then have "c_id c \<noteq> c_id cart" using Cons.prems by auto
    then show ?thesis using False f Cons by simp
  qed
qed

lemma find_append_new:
  "find P xs = None \<Longrightarrow> P y \<Longrightarrow> find P (xs @ [y]) = Some y"
  by (induction xs) (auto split: if_splits)

lemma add_to_cart_step:
  assumes valid: "is_valid d user_id" "is_valid d pid"
    and nofail: "\<not> store_fails d (FindOne Products)" "\<not> store_fails d (FindOne Carts)"
      "\<not> store_fails d (InsertOne Carts)" "\<not> store_fails d (UpdateOne Carts)"
    and product: "find (\<lambda>p. p_id p = ObjectId d pid) (products_collection st) = Some p"
    and ids: "distinct (map c_id (carts_collection st))"
  shows "\<exists>st' cart'.
           add_to_cart d st user_id pid q now = (Inr ''Product added to cart successfully'', st') \<and>
           products_collection st' = products_collection st \<and>
           users_collection st' = users_collection st \<and>
           orders_collection st' = orders_collection st \<and>
           distinct (map c_id (carts_collection st')) \<and>
           find (\<lambda>c. c_user_id c = ObjectId d user_id) (carts_collection st') = Some cart' \<and>
           c_items cart' = merge_items (ObjectId d pid) q (user_items st (ObjectId d user_id)) \<and>
           c_updated_at cart' = now"
proof (cases "find (\<lambda>c. c_user_id c = ObjectId d user_id) (carts_collection st)")
  case None
  let ?new = "\<lparr>c_id = new_id (map c_id (carts_collection st)), c_user_id = ObjectId d user_id,
               c_items = [\<lparr>product_id = ObjectId d pid, quantity = q\<rparr>], c_updated_at = now\<rparr>"
  have run: "add_to_cart d st user_id pid q now =
      (Inr ''Product added to cart successfully'',
       st\<lparr>carts_collection := carts_collection st @ [?new]\<rparr>)"
    using valid nofail product None
    by (simp add: add_to_cart_def find_one_product_def find_one_cart_def insert_one_cart_def Let_def)
  have found: "find (\<lambda>c. c_user_id c = ObjectId d user_id) (carts_collection st @ [?new]) = Some ?new"
    using None by (rule find_append_new) simp
  have fresh: "distinct (map c_id (carts_collection st @ [?new]))"
    using ids new_id_fresh[of "map c_id (carts_collection st)"] by simp
  have items: "c_items ?new = merge_items (ObjectId d pid) q (user_items st (ObjectId d user_id))"
    using None by (simp add: user_items_def merge_items_def)
  show ?thesis
    apply (rule exI[of _ "st\<lparr>carts_collection := carts_collection st @ [?new]\<rparr>"])
    apply (rule exI[of _ ?new])
    using run found fresh items by simp
next
  case (Some cart)
  let ?f = "\<lambda>c. c\<lparr>c_items := merge_items (ObjectId d pid) q (c_items cart), c_updated_at := now\<rparr>"
  let ?cs = "update_first (\<lambda>c. c_id c = c_id cart) ?f (carts_collection st)"
  have run: "add_to_cart d st user_id pid q now =
      (Inr ''Product added to cart successfully'', st\<lparr>carts_collection := ?cs\<rparr>)"
    using valid nofail product Some
    by (simp add: add_to_cart_def find_one_product_def find_one_cart_def update_one_cart_def)
  have found: "find (\<lambda>c. c_user_id c = ObjectId d user_id) ?cs = Some (?f cart)"
    using Some ids by (rule find_update_by_id) simp
  have keys: "map c_id ?cs = map c_id (carts_collection st)"
    by (rule map_key_update_first) simp
  have items: "c_items (?f cart) = merge_items (ObjectId d pid) q (user_items st (ObjectId d user_id))"
    using Some by (simp add: user_items_def)
  show ?thesis
    apply (rule exI[of _ "st\<lparr>carts_collection := ?cs\<rparr>"])
    apply (rule exI[of _ "?f cart"])
    using run found keys ids items by simp
qed

lemma find_merge_items:
  "find (\<lambda>it. product_id it = pid) (merge_items pid q its) =
     (case find (\<lambda>it. product_id it = pid) its of
        None \<Rightarrow> Some \<lparr>product_id = pid, quantity = q\<rparr>
      | Some it \<Rightarrow> Some (it\<lparr>quantity := quantity it + q\<rparr>))"
proof (cases "find (\<lambda>it. product_id it = pid) its")
  case None
  then have "pid \<notin> product_id ` set its" by (auto simp: find_None_iff)
  then have "merge_items pid q its = its @ [\<lparr>product_id = pid, quantity = q\<rparr>]"
    by (rule merge_items_absent)
  moreover have "find (\<lambda>it. product_id it = pid) (its @ [\<lparr>product_id = pid, quantity = q\<rparr>]) =
      Some \<lparr>product_id = pid, quantity = q\<rparr>"
    using None by (rule find_append_new) simp
  ultimately show ?thesis using None by simp
next
  case (Some it)
  then have "it \<in> set its" "product_id it = pid" by (auto simp: find_Some_iff)
  then have "pid \<in> product_id ` set its" by auto
  then have "merge_items pid q its =
     update_first (\<lambda>it. product_id it = pid) (\<lambda>it. it\<lparr>quantity := quantity it + q\<rparr>) its"
    by (rule merge_items_present)
  moreover have "find (\<lambda>it. product_id it = pid)
      (update_first (\<lambda>it. product_id it = pid) (\<lambda>it. it\<lparr>quantity := quantity it + q\<rparr>) its) =
      Some (it\<lparr>quantity := quantity it + q\<rparr>)"
    using Some by (rule find_update_first) (simp add: \<open>product_id it = pid\<close>)
  ultimately show ?thesis using Some by simp
qed

lemma filter_distinct_key:
  assumes "distinct (map k xs)" and "find (\<lambda>x. k x = a) xs = Some x0"
  shows "filter (\<lambda>x. k x = a) xs = [x0]"
  using assms
proof (induction xs)
  case Nil
  then show ?case by simp
next
  case (Cons x xs)
  show ?case
  proof (cases "k x = a")
    case True
    then have "\<forall>y \<in> set xs. k y \<noteq> a" using Cons.prems by (auto simp: image_iff)
    then have "filter (\<lambda>x. k x = a) xs = []" by (simp add: filter_empty_conv)
    then show ?thesis using True Cons.prems by simp
  next
    case False
    then show ?thesis using Cons by simp
  qed
qed

lemma update_first_append_last:
  assumes "\<forall>x \<in> set xs. \<not> P x" and "P y"
  shows "update_first P f (xs @ [y]) = xs @ [f y]"
  using assms by (induction xs) auto

lemma merge_items_twice:
  assumes "distinct (map product_id its)"
  shows "merge_items pid q2 (merge_items pid q1 its) =
     (if pid \<in> product_id ` set its
      then map (\<lambda>it. if product_id it = pid then it\<lparr>quantity := quantity it + q1 + q2\<rparr> else it) its
      else its @ [\<lparr>product_id = pid, quantity = q1 + q2\<rparr>])"
proof (cases "pid \<in> product_id ` set its")
  case True
  let ?g = "\<lambda>q it. if product_id it = pid then it\<lparr>quantity := quantity it + q\<rparr> else it"
  have m1: "merge_items pid q1 its = map (?g q1) its"
    using True assms by (simp add: merge_items_present update_first_distinct_key)
  have ids: "map product_id (map (?g q1) its) = map product_id its"
    by (induction its) auto
  have "pid \<in> product_id ` set (map (?g q1) its)"
    using True ids by (metis set_map)
  moreover have "distinct (map product_id (map (?g q1) its))"
    using assms by (simp only: ids)
  ultimately have m2: "merge_items pid q2 (map (?g q1) its) = map (?g q2) (map (?g q1) its)"
    by (simp only: merge_items_present update_first_distinct_key)
  have "map (?g q2) (map (?g q1) its) =
        map (\<lambda>it. if product_id it = pid then it\<lparr>quantity := quantity it + q1 + q2\<rparr> else it) its"
    by (induction its) auto
  then show ?thesis using True m1 m2 by simp
next
  case False
  then have m1: "merge_items pid q1 its = its @ [\<lparr>product_id = pid, quantity = q1\<rparr>]"
    by (rule merge_items_absent)
  have "pid \<in> product_id ` set (its @ [\<lparr>product_id = pid, quantity = q1\<rparr>])" by simp
  then have "merge_items pid q2 (its @ [\<lparr>product_id = pid, quantity = q1\<rparr>]) =
     update_first (\<lambda>it. product_id it = pid) (\<lambda>it. it\<lparr>quantity := quantity it + q2\<rparr>)
       (its @ [\<lparr>product_id = pid, quantity = q1\<rparr>])"
    by (rule merge_items_present)
  also have "\<dots> = its @ [\<lparr>product_id = pid, quantity = q1 + q2\<rparr>]"
    using False by (subst update_first_append_last) auto
  finally show ?thesis using False m1 by simp
qed

lemma list_all_update_first:
  assumes "list_all P xs" and "\<And>x. P (f x)"
  shows "list_all P (update_first Q f xs)"
  using assms by (induction xs) auto

lemma find_merge_items_twice:
  "find (\<lambda>it. product_id it = pid) (merge_items pid q2 (merge_items pid q1 its)) =
     Some \<lparr>product_id = pid,
           quantity = (case map_option quantity (find (\<lambda>it. product_id it = pid) its) of
                         None \<Rightarrow> 0 | Some q0 \<Rightarrow> q0) + q1 + q2\<rparr>"
proof (cases "find (\<lambda>it. product_id it = pid) its")
  case None
  then show ?thesis by (simp add: find_merge_items)
next
  case (Some it)
  then have "product_id it = pid" by (auto simp: find_Some_iff)
  then have "it\<lparr>quantity := quantity it + q1 + q2\<rparr> =
             \<lparr>product_id = pid, quantity = quantity it + q1 + q2\<rparr>"
    by (cases it) simp
  then show ?thesis using Some by (simp add: find_merge_items)
qed

lemma ObjectId_4 [simp]: "ObjectId test_deps ''000000000000000000000004'' = 4"
  by (simp add: test_deps_def hexval_def)

lemma is_valid_4 [simp]: "is_valid test_deps ''000000000000000000000004''"
  by (simp add: test_deps_def hexdigit_def)

lemma sample_user_items [simp]: "user_items sample_store 10 = c_items sample_cart"
  by (simp add: user_items_def sample_cart_def)

lemma sample_store_ids: "distinct (map c_id (carts_collection sample_store))"
  by (simp add: sample_cart_def stale_cart_def)

lemma sample_product_4:
  "find (\<lambda>p. p_id p = ObjectId test_deps ''000000000000000000000004'')
     (products_collection sample_store) = Some (sample_products ! 3)"
  by (simp add: sample_products_def)

lemma sample_stored_4: "stored_quantity sample_store 10 4 = Some 2"
  by (simp add: stored_quantity_def sample_cart_def)

text \<open>
  The store never gives two carts one identifier; the handlers keep it so, which is what the
  statements below assume of the store they start from.
\<close>

lemma cart_ids_stay_unique:
  assumes "distinct (map c_id (carts_collection st))"
  shows "distinct (map c_id (carts_collection (snd (register_user d st username email password t1 t2))))"
    and "distinct (map c_id (carts_collection (snd (add_to_cart d st user_id pid q t3))))"
    and "distinct (map c_id (carts_collection (snd (checkout d st user_id' t4 t5))))"
proof -
  have fresh: "new_id (map c_id cs) \<notin> c_id ` set cs" for cs
    using new_id_fresh[of "map c_id cs"] by simp
  have upd: "map c_id (update_first P (\<lambda>c. c\<lparr>c_items := its, c_updated_at := t\<rparr>) cs) = map c_id cs"
    for P its t and cs :: "cart_doc list"
    by (rule map_key_update_first) simp
  show "distinct (map c_id (carts_collection (snd (register_user d st username email password t1 t2))))"
    using assms fresh
    by (auto simp: register_user_def find_one_user_def insert_one_user_def insert_one_cart_def
        Let_def split: option.splits)
  show "distinct (map c_id (carts_collection (snd (add_to_cart d st user_id pid q t3))))"
    using assms fresh
    by (auto simp: add_to_cart_def find_one_product_def find_one_cart_def insert_one_cart_def
        update_one_cart_def upd Let_def split: option.splits)
  show "distinct (map c_id (carts_collection (snd (checkout d st user_id' t4 t5))))"
    using assms
    by (auto simp: checkout_def find_one_cart_def insert_one_order_def update_one_cart_def upd
        Let_def split: option.splits sum.splits prod.splits)
qed

section \<open>Adding to a cart that does not exist\<close>

text \<open>
  Claim C8.  For well-formed user and product identifiers, a product that the catalogue has
  and a user who has no cart (and when the lookups and the insert do not raise),
  \<open>add_to_cart\<close> succeeds for any quantity: the store it leaves is the old one with one cart
  appended, which has a fresh identifier, belongs to the user and holds exactly the one entry
  of the requested product with the requested quantity; it is then the user's cart.  Whether
  the user exists is never looked at.
\<close>

theorem add_to_cart_creates_cart:
  assumes valid: "is_valid d user_id" "is_valid d pid"
    and nofail: "\<not> store_fails d (FindOne Products)" "\<not> store_fails d (FindOne Carts)"
      "\<not> store_fails d (InsertOne Carts)"
    and product: "find (\<lambda>p. p_id p = ObjectId d pid) (products_collection st) = Some p"
    and nocart: "find (\<lambda>c. c_user_id c = ObjectId d user_id) (carts_collection st) = None"
  shows "\<exists>st' cart'.
           add_to_cart d st user_id pid q now = (Inr ''Product added to cart successfully'', st') \<and>
           st' = st\<lparr>carts_collection := carts_collection st @ [cart']\<rparr> \<and>
           c_id cart' \<notin> c_id ` set (carts_collection st) \<and>
           c_user_id cart' = ObjectId d user_id \<and>
           c_items cart' = [\<lparr>product_id = ObjectId d pid, quantity = q\<rparr>] \<and>
           c_updated_at cart' = now \<and>
           find (\<lambda>c. c_user_id c = ObjectId d user_id) (carts_collection st') = Some cart'"
proof -
  let ?new = "\<lparr>c_id = new_id (map c_id (carts_collection st)), c_user_id = ObjectId d user_id,
               c_items = [\<lparr>product_id = ObjectId d pid, quantity = q\<rparr>], c_updated_at = now\<rparr>"
  have run: "add_to_cart d st user_id pid q now =
      (Inr ''Product added to cart successfully'',
       st\<lparr>carts_collection := carts_collection st @ [?new]\<rparr>)"
    using valid nofail product nocart
    by (simp add: add_to_cart_def find_one_product_def find_one_cart_def insert_one_cart_def Let_def)
  have found: "find (\<lambda>c. c_user_id c = ObjectId d user_id) (carts_collection st @ [?new]) = Some ?new"
    using nocart by (rule find_append_new) simp
  have fresh: "c_id ?new \<notin> c_id ` set (carts_collection st)"
    using new_id_fresh[of "map c_id (carts_collection st)"] by simp
  show ?thesis
    apply (rule exI[of _ "st\<lparr>carts_collection := carts_collection st @ [?new]\<rparr>"])
    apply (rule exI[of _ ?new])
    using run found fresh by simp
qed

theorem add_to_cart_creates_cart_witness:
  "is_valid test_deps ''00000000000000000000000c'' \<and>
   is_valid test_deps ''000000000000000000000004'' \<and>
   \<not> store_fails test_deps (FindOne Products) \<and>
   \<not> store_fails test_deps (FindOne Carts) \<and>
   \<not> store_fails test_deps (InsertOne Carts) \<and>
   find (\<lambda>p. p_id p = ObjectId test_deps ''000000000000000000000004'')
     (products_collection sample_store) = Some (sample_products ! 3) \<and>
   find (\<lambda>c. c_user_id c = ObjectId test_deps ''00000000000000000000000c'')
     (carts_collection sample_store) = None \<and>
   (\<exists>st' cart'.
      add_to_cart test_deps sample_store ''00000000000000000000000c'' ''000000000000000000000004''
        7 ''t'' = (Inr ''Product added to cart successfully'', st') \<and>
      carts_collection st' = [sample_cart, stale_cart, cart'] \<and>
      c_user_id cart' = 12 \<and>
      c_items cart' = [\<lparr>product_id = 4, quantity = 7\<rparr>])"
proof -
  have h1: "is_valid test_deps ''00000000000000000000000c''" by simp
  have h2: "is_valid test_deps ''000000000000000000000004''" by simp
  have h3: "\<not> store_fails test_deps (FindOne Products)" by simp
  have h4: "\<not> store_fails test_deps (FindOne Carts)" by simp
  have h5: "\<not> store_fails test_deps (InsertOne Carts)" by simp
  have h6: "find (\<lambda>p. p_id p = ObjectId test_deps ''000000000000000000000004'')
     (products_collection sample_store) = Some (sample_products ! 3)"
    by (simp add: sample_products_def)
  have h7: "find (\<lambda>c. c_user_id c = ObjectId test_deps ''00000000000000000000000c'')
     (carts_collection sample_store) = None"
    by (simp add: sample_cart_def stale_cart_def)
  from add_to_cart_creates_cart[OF h1 h2 h3 h4 h5 h6 h7, of 7 "''t''"] h1 h2 h3 h4 h5 h6 h7
  show ?thesis by auto
qed

section \<open>Quantities are not validated\<close>

text \<open>
  Claim C10.  For well-formed identifiers and a product of the catalogue (no store operation
  raising, cart identifiers unique as the store guarantees), \<open>add_to_cart\<close> succeeds for
  every integer quantity \<open>q\<close>, with no condition on its sign: afterwards the quantity stored
  for the product in the user's cart is \<open>q\<close> when there was no entry before (or no cart),
  and the previous quantity plus \<open>q\<close> otherwise.  So a stored quantity can be zero or
  negative; the instance that follows the theorem ends with the quantity \<open>-3\<close>.
\<close>

theorem add_to_cart_any_quantity:
  assumes valid: "is_valid d user_id" "is_valid d pid"
    and nofail: "\<not> store_fails d (FindOne Products)" "\<not> store_fails d (FindOne Carts)"
      "\<not> store_fails d (InsertOne Carts)" "\<not> store_fails d (UpdateOne Carts)"
    and product: "find (\<lambda>p. p_id p = ObjectId d pid) (products_collection st) = Some p"
    and ids: "distinct (map c_id (carts_collection st))"
  shows "\<exists>st'.
           add_to_cart d st user_id pid q now = (Inr ''Product added to cart successfully'', st') \<and>
           stored_quantity st' (ObjectId d user_id) (ObjectId d pid) =
             (case stored_quantity st (ObjectId d user_id) (ObjectId d pid) of
                None \<Rightarrow> Some q
              | Some q0 \<Rightarrow> Some (q0 + q))"
proof -
  from add_to_cart_step[OF valid nofail product ids, of q now]
  obtain st' cart' where
    run: "add_to_cart d st user_id pid q now = (Inr ''Product added to cart successfully'', st')"
    and found: "find (\<lambda>c. c_user_id c = ObjectId d user_id) (carts_collection st') = Some cart'"
    and items: "c_items cart' = merge_items (ObjectId d pid) q (user_items st (ObjectId d user_id))"
    by blast
  have "user_items st' (ObjectId d user_id) =
          merge_items (ObjectId d pid) q (user_items st (ObjectId d user_id))"
    using found items by (simp add: user_items_def)
  then have "stored_quantity st' (ObjectId d user_id) (ObjectId d pid) =
             (case stored_quantity st (ObjectId d user_id) (ObjectId d pid) of
                None \<Rightarrow> Some q
              | Some q0 \<Rightarrow> Some (q0 + q))"
    by (simp add: stored_quantity_def find_merge_items split: option.splits)
  with run show ?thesis by blast
qed

theorem add_to_cart_any_quantity_witness:
  "is_valid test_deps ''00000000000000000000000a'' \<and>
   is_valid test_deps ''000000000000000000000004'' \<and>
   \<not> store_fails test_deps (FindOne Products) \<and>
   \<not> store_fails test_deps (FindOne Carts) \<and>
   \<not> store_fails test_deps (InsertOne Carts) \<and>
   \<not> store_fails test_deps (UpdateOne Carts) \<and>
   find (\<lambda>p. p_id p = ObjectId test_deps ''000000000000000000000004'')
     (products_collection sample_store) = Some (sample_products ! 3) \<and>
   distinct (map c_id (carts_collection sample_store)) \<and>
   stored_quantity sample_store 10 4 = Some 2 \<and>
   (\<exists>st'.
      add_to_cart test_deps sample_store ''00000000000000000000000a'' ''000000000000000000000004''
        (- 5) ''t'' = (Inr ''Product added to cart successfully'', st') \<and>
      stored_quantity st' 10 4 = Some (- 3))"
proof -
  have h1: "is_valid test_deps ''00000000000000000000000a''" by simp
  have h2: "is_valid test_deps ''000000000000000000000004''" by simp
  have h3: "\<not> store_fails test_deps (FindOne Products)" by simp
  have h4: "\<not> store_fails test_deps (FindOne Carts)" by simp
  have h5: "\<not> store_fails test_deps (InsertOne Carts)" by simp
  have h6: "\<not> store_fails test_deps (UpdateOne Carts)" by simp
  note h7 = sample_product_4
  note h8 = sample_store_ids
  from add_to_cart_any_quantity[OF h1 h2 h3 h4 h5 h6 h7 h8, of "- 5" "''t''"]
    h1 h2 h3 h4 h5 h6 h7 h8 sample_stored_4
  show ?thesis by auto
qed

section \<open>Adding the same product twice\<close>

text \<open>
  Claim C2.  Take well-formed identifiers, a product of the catalogue, a store whose cart
  identifiers are unique and a user whose items list has at most one entry per product (the
  list is empty when the user has no cart yet); let no store operation raise.  Then two
  successive calls of \<open>add_to_cart\<close> for the same user and product, with quantities \<open>q1\<close>
  and \<open>q2\<close>, both succeed, and the user's cart afterwards is the old items list in which
  the entry of the product has had \<open>q1 + q2\<close> added to its quantity, or, when the product
  had no entry, the old list with one new entry of quantity \<open>q1 + q2\<close> appended.  Either
  way the cart has exactly one entry for the product, and its quantity is the previously
  stored quantity (0 when there was none) plus \<open>q1\<close> plus \<open>q2\<close>.  The quantities need not
  be positive.
\<close>

theorem add_to_cart_twice:
  assumes valid: "is_valid d user_id" "is_valid d pid"
    and nofail: "\<not> store_fails d (FindOne Products)" "\<not> store_fails d (FindOne Carts)"
      "\<not> store_fails d (InsertOne Carts)" "\<not> store_fails d (UpdateOne Carts)"
    and product: "find (\<lambda>p. p_id p = ObjectId d pid) (products_collection st) = Some p"
    and ids: "distinct (map c_id (carts_collection st))"
    and merged: "distinct (map product_id (user_items st (ObjectId d user_id)))"
  shows "\<exists>st1 st2 cart2.
           add_to_cart d st user_id pid q1 now1 = (Inr ''Product added to cart successfully'', st1) \<and>
           add_to_cart d st1 user_id pid q2 now2 = (Inr ''Product added to cart successfully'', st2) \<and>
           find (\<lambda>c. c_user_id c = ObjectId d user_id) (carts_collection st2) = Some cart2 \<and>
           c_items cart2 =
             (if ObjectId d pid \<in> product_id ` set (user_items st (ObjectId d user_id))
              then map (\<lambda>it. if product_id it = ObjectId d pid
                              then it\<lparr>quantity := quantity it + q1 + q2\<rparr> else it)
                     (user_items st (ObjectId d user_id))
              else user_items st (ObjectId d user_id) @
                     [\<lparr>product_id = ObjectId d pid, quantity = q1 + q2\<rparr>]) \<and>
           filter (\<lambda>it. product_id it = ObjectId d pid) (c_items cart2) =
             [\<lparr>product_id = ObjectId d pid,
               quantity = (case stored_quantity st (ObjectId d user_id) (ObjectId d pid) of
                             None \<Rightarrow> 0 | Some q0 \<Rightarrow> q0) + q1 + q2\<rparr>]"
proof -
  let ?U = "ObjectId d user_id" and ?P = "ObjectId d pid"
  let ?its = "user_items st ?U"
  from add_to_cart_step[OF valid nofail product ids, of q1 now1]
  obtain st1 cart1 where
    run1: "add_to_cart d st user_id pid q1 now1 = (Inr ''Product added to cart successfully'', st1)"
    and prods1: "products_collection st1 = products_collection st"
    and ids1: "distinct (map c_id (carts_collection st1))"
    and found1: "find (\<lambda>c. c_user_id c = ?U) (carts_collection st1) = Some cart1"
    and items1: "c_items cart1 = merge_items ?P q1 ?its"
    by blast
  have product1: "find (\<lambda>p. p_id p = ?P) (products_collection st1) = Some p"
    using product prods1 by simp
  have its1: "user_items st1 ?U = merge_items ?P q1 ?its"
    using found1 items1 by (simp add: user_items_def)
  from add_to_cart_step[OF valid nofail product1 ids1, of q2 now2]
  obtain st2 cart2 where
    run2: "add_to_cart d st1 user_id pid q2 now2 = (Inr ''Product added to cart successfully'', st2)"
    and found2: "find (\<lambda>c. c_user_id c = ?U) (carts_collection st2) = Some cart2"
    and items2: "c_items cart2 = merge_items ?P q2 (user_items st1 ?U)"
    by blast
  have its2: "c_items cart2 = merge_items ?P q2 (merge_items ?P q1 ?its)"
    using items2 its1 by simp
  have shape: "c_items cart2 =
             (if ?P \<in> product_id ` set ?its
              then map (\<lambda>it. if product_id it = ?P
                              then it\<lparr>quantity := quantity it + q1 + q2\<rparr> else it) ?its
              else ?its @ [\<lparr>product_id = ?P, quantity = q1 + q2\<rparr>])"
    using its2 merge_items_twice[OF merged, of ?P q2 q1] by simp
  have dist2: "distinct (map product_id (c_items cart2))"
    using its2 merged by (simp add: merge_items_distinct)
  have "find (\<lambda>it. product_id it = ?P) (c_items cart2) =
          Some \<lparr>product_id = ?P,
                quantity = (case stored_quantity st ?U ?P of None \<Rightarrow> 0 | Some q0 \<Rightarrow> q0) + q1 + q2\<rparr>"
    using its2 by (simp add: find_merge_items_twice stored_quantity_def)
  with dist2 have single: "filter (\<lambda>it. product_id it = ?P) (c_items cart2) =
          [\<lparr>product_id = ?P,
            quantity = (case stored_quantity st ?U ?P of None \<Rightarrow> 0 | Some q0 \<Rightarrow> q0) + q1 + q2\<rparr>]"
    by (rule filter_distinct_key)
  show ?thesis
    apply (rule exI[of _ st1], rule exI[of _ st2], rule exI[of _ cart2])
    using run1 run2 found2 shape single by simp
qed

theorem add_to_cart_twice_witness:
  "is_valid test_deps ''00000000000000000000000a'' \<and>
   is_valid test_deps ''000000000000000000000004'' \<and>
   \<not> store_fails test_deps (FindOne Products) \<and>
   \<not> store_fails test_deps (FindOne Carts) \<and>
   \<not> store_fails test_deps (InsertOne Carts) \<and>
   \<not> store_fails test_deps (UpdateOne Carts) \<and>
   find (\<lambda>p. p_id p = ObjectId test_deps ''000000000000000000000004'')
     (products_collection sample_store) = Some (sample_products ! 3) \<and>
   distinct (map c_id (carts_collection sample_store)) \<and>
   distinct (map product_id (user_items sample_store
      (ObjectId test_deps ''00000000000000000000000a''))) \<and>
   (\<exists>st1 st2 cart2.
      add_to_cart test_deps sample_store ''00000000000000000000000a'' ''000000000000000000000004''
        1 ''t1'' = (Inr ''Product added to cart successfully'', st1) \<and>
      add_to_cart test_deps st1 ''00000000000000000000000a'' ''000000000000000000000004''
        3 ''t2'' = (Inr ''Product added to cart successfully'', st2) \<and>
      find (\<lambda>c. c_user_id c = 10) (carts_collection st2) = Some cart2 \<and>
      c_items cart2 = [\<lparr>product_id = 4, quantity = 6\<rparr>, \<lparr>product_id = 5, quantity = 1\<rparr>] \<and>
      filter (\<lambda>it. product_id it = 4) (c_items cart2) = [\<lparr>product_id = 4, quantity = 6\<rparr>])"
proof -
  have h1: "is_valid test_deps ''00000000000000000000000a''" by simp
  have h2: "is_valid test_deps ''000000000000000000000004''" by simp
  have h3: "\<not> store_fails test_deps (FindOne Products)" by simp
  have h4: "\<not> store_fails test_deps (FindOne Carts)" by simp
  have h5: "\<not> store_fails test_deps (InsertOne Carts)" by simp
  have h6: "\<not> store_fails test_deps (UpdateOne Carts)" by simp
  note h7 = sample_product_4
  note h8 = sample_store_ids
  have h9: "distinct (map product_id (user_items sample_store
      (ObjectId test_deps ''00000000000000000000000a'')))"
    by (simp add: sample_cart_def)
  have its: "c_items sample_cart = [\<lparr>product_id = 4, quantity = 2\<rparr>, \<lparr>product_id = 5, quantity = 1\<rparr>]"
    by (simp add: sample_cart_def)
  from add_to_cart_twice[OF h1 h2 h3 h4 h5 h6 h7 h8 h9, of 1 "''t1''" 3 "''t2''"]
  obtain st1 st2 cart2 where r:
    "add_to_cart test_deps sample_store ''00000000000000000000000a'' ''000000000000000000000004''
        1 ''t1'' = (Inr ''Product added to cart successfully'', st1)"
    "add_to_cart test_deps st1 ''00000000000000000000000a'' ''000000000000000000000004''
        3 ''t2'' = (Inr ''Product added to cart successfully'', st2)"
    "find (\<lambda>c. c_user_id c = 10) (carts_collection st2) = Some cart2"
    "c_items cart2 = [\<lparr>product_id = 4, quantity = 6\<rparr>, \<lparr>product_id = 5, quantity = 1\<rparr>]"
    "filter (\<lambda>it. product_id it = 4) (c_items cart2) = [\<lparr>product_id = 4, quantity = 6\<rparr>]"
    by (auto simp: its sample_stored_4)
  then have "\<exists>st1 st2 cart2.
      add_to_cart test_deps sample_store ''00000000000000000000000a'' ''000000000000000000000004''
        1 ''t1'' = (Inr ''Product added to cart successfully'', st1) \<and>
      add_to_cart test_deps st1 ''00000000000000000000000a'' ''000000000000000000000004''
        3 ''t2'' = (Inr ''Product added to cart successfully'', st2) \<and>
      find (\<lambda>c. c_user_id c = 10) (carts_collection st2) = Some cart2 \<and>
      c_items cart2 = [\<lparr>product_id = 4, quantity = 6\<rparr>, \<lparr>product_id = 5, quantity = 1\<rparr>] \<and>
      filter (\<lambda>it. product_id it = 4) (c_items cart2) = [\<lparr>product_id = 4, quantity = 6\<rparr>]"
    by blast
  with h1 h2 h3 h4 h5 h6 h7 h8 h9 show ?thesis by blast
qed

section \<open>The cart invariant\<close>

text \<open>
  Claim C4.  If no cart of the store has two entries for one product, then the same holds of
  the store left by a registration, by an \<open>add_to_cart\<close> (whether it creates the cart or
  merges into it) and by a checkout, whatever their arguments and whether they succeed, fail
  or are cut short by a store operation that raises.
\<close>

theorem cart_writes_keep_merged:
  assumes "carts_merged st"
  shows "carts_merged (snd (register_user d st username email password t1 t2)) \<and>
         carts_merged (snd (add_to_cart d st user_id pid q t3)) \<and>
         carts_merged (snd (checkout d st user_id' t4 t5))"
proof (intro conjI)
  show "carts_merged (snd (register_user d st username email password t1 t2))"
    using assms
    by (auto simp: carts_merged_def register_user_def find_one_user_def insert_one_user_def
        insert_one_cart_def Let_def split: option.splits)
next
  show "carts_merged (snd (add_to_cart d st user_id pid q t3))"
  proof (cases "find (\<lambda>c. c_user_id c = ObjectId d user_id) (carts_collection st)")
    case None
    then show ?thesis using assms
      by (auto simp: carts_merged_def add_to_cart_def find_one_product_def find_one_cart_def
          insert_one_cart_def Let_def split: option.splits)
  next
    case (Some cart)
    then have "cart \<in> set (carts_collection st)" by (auto simp: find_Some_iff)
    then have "distinct (map product_id (c_items cart))"
      using assms by (auto simp: carts_merged_def list_all_iff)
    then have m: "distinct (map product_id (merge_items (ObjectId d pid) q (c_items cart)))"
      by (rule merge_items_distinct)
    have "list_all (\<lambda>c. distinct (map product_id (c_items c)))
            (update_first (\<lambda>c. c_id c = c_id cart)
               (\<lambda>c. c\<lparr>c_items := merge_items (ObjectId d pid) q (c_items cart), c_updated_at := t3\<rparr>)
               (carts_collection st))"
      using assms m by (intro list_all_update_first) (simp_all add: carts_merged_def)
    then show ?thesis using assms Some
      by (auto simp: carts_merged_def add_to_cart_def find_one_product_def find_one_cart_def
          update_one_cart_def split: option.splits)
  qed
next
  have "list_all (\<lambda>c. distinct (map product_id (c_items c)))
            (update_first (\<lambda>c. c_user_id c = ObjectId d user_id')
               (\<lambda>c. c\<lparr>c_items := [], c_updated_at := t5\<rparr>) (carts_collection st))"
    using assms by (intro list_all_update_first) (simp_all add: carts_merged_def)
  then show "carts_merged (snd (checkout d st user_id' t4 t5))"
    using assms
    by (auto simp: carts_merged_def checkout_def find_one_cart_def insert_one_order_def
        update_one_cart_def Let_def split: option.splits sum.splits prod.splits)
qed

theorem cart_writes_keep_merged_witness:
  "carts_merged sample_store \<and>
   carts_merged (snd (register_user test_deps sample_store ''esi'' ''esi@example.com'' ''pw''
                        ''t1'' ''t2'')) \<and>
   carts_merged (snd (add_to_cart test_deps sample_store ''00000000000000000000000a''
                        ''000000000000000000000004'' 1 ''t3'')) \<and>
   carts_merged (snd (checkout test_deps sample_store ''00000000000000000000000a'' ''t4'' ''t5''))"
proof -
  have h: "carts_merged sample_store"
    by (simp add: carts_merged_def sample_cart_def stale_cart_def)
  from cart_writes_keep_merged[OF h] h show ?thesis by blast
qed

lemma shrunk_store_products:
  "products_collection shrunk_store = take 4 sample_products"
  by (simp add: shrunk_store_def)

lemma shrunk_store_carts: "carts_collection shrunk_store = [sample_cart, stale_cart]"
  by (simp add: shrunk_store_def)

lemma sample_store_users:
  "users_collection sample_store =
     [\<lparr>u_id = 10, u_username = ''ama'', u_email = ''ama@example.com'',
       u_password = ''$secret'', u_created_at = ''2025-01-01T09:00:00''\<rparr>,
      \<lparr>u_id = 11, u_username = ''kofi'', u_email = ''kofi@example.com'',
       u_password = ''$hidden'', u_created_at = ''2025-01-02T09:00:00''\<rparr>]"
  by (simp add: sample_store_def seed_def)

section \<open>Reading a cart with stale entries\<close>

lemma get_cart_loop_eq:
  assumes "\<not> store_fails d (FindOne Products)"
  shows "get_cart_loop d st its acc = Inr (acc @ List.map_filter (cart_view_line d st) its)"
  using assms
proof (induction its arbitrary: acc)
  case Nil
  then show ?case by simp
next
  case (Cons it its)
  then show ?case
    by (cases "find (\<lambda>p. p_id p = product_id it) (products_collection st)")
       (simp_all add: find_one_product_def cart_view_line_def)
qed

lemma joined_quantities:
  "sum_list (map quantity its) =
     sum_list (map cl_quantity (List.map_filter (cart_view_line d st) its)) +
     sum_list (map quantity
       (filter (\<lambda>it. find (\<lambda>p. p_id p = product_id it) (products_collection st) = None) its))"
  by (induction its) (auto simp: cart_view_line_def split: option.splits)

lemma joined_length:
  "length (List.map_filter (cart_view_line d st) its) =
     length (filter (\<lambda>it. find (\<lambda>p. p_id p = product_id it) (products_collection st) \<noteq> None) its)"
  by (induction its) (auto simp: cart_view_line_def split: option.splits)

text \<open>
  Claim C5.  For a well-formed identifier and a user whose cart has a non-empty items list
  (the lookups not raising), \<open>get_cart\<close> answers with the cart view, never with an error.
  Its lines are those of the stored entries whose product resolves, in order, each with the
  stored quantity and the subtotal ``current price times stored quantity'' (the handler's
  own product \<open>mul\<close> of a stored number and an integer, whatever its rounding); an entry
  whose product is gone gives no line.  Its \<open>total_items\<close> is the sum of the quantities of all
  stored entries, that is the sum over the returned lines plus the quantities of the omitted
  entries, so it exceeds the sum over the returned lines whenever the omitted quantities add
  up to a positive number (in the instance after the theorem: 3 against 2).
\<close>

theorem get_cart_omits_stale:
  assumes valid: "is_valid d user_id"
    and nofail: "\<not> store_fails d (FindOne Carts)" "\<not> store_fails d (FindOne Products)"
    and cart: "find (\<lambda>c. c_user_id c = ObjectId d user_id) (carts_collection st) = Some cart"
    and nonempty: "c_items cart \<noteq> []"
  shows "\<exists>lines total_items.
           get_cart d st user_id = Inr (CartView user_id lines total_items) \<and>
           lines = List.map_filter (cart_view_line d st) (c_items cart) \<and>
           length lines =
             length (filter (\<lambda>it. find (\<lambda>p. p_id p = product_id it) (products_collection st) \<noteq> None)
                       (c_items cart)) \<and>
           total_items = sum_list (map quantity (c_items cart)) \<and>
           total_items = sum_list (map cl_quantity lines) +
             sum_list (map quantity
               (filter (\<lambda>it. find (\<lambda>p. p_id p = product_id it) (products_collection st) = None)
                  (c_items cart)))"
proof -
  have "get_cart d st user_id =
      Inr (CartView user_id (List.map_filter (cart_view_line d st) (c_items cart))
             (sum_list (map quantity (c_items cart))))"
    using valid nofail cart nonempty
    by (simp add: get_cart_def find_one_cart_def get_cart_loop_eq)
  then show ?thesis
    using joined_quantities[of "c_items cart" d st] joined_length[of d st "c_items cart"]
    by simp
qed

theorem get_cart_omits_stale_witness:
  "is_valid test_deps ''00000000000000000000000a'' \<and>
   \<not> store_fails test_deps (FindOne Carts) \<and>
   \<not> store_fails test_deps (FindOne Products) \<and>
   find (\<lambda>c. c_user_id c = ObjectId test_deps ''00000000000000000000000a'')
     (carts_collection shrunk_store) = Some sample_cart \<and>
   c_items sample_cart \<noteq> [] \<and>
   (\<exists>lines total_items.
      get_cart test_deps shrunk_store ''00000000000000000000000a'' =
        Inr (CartView ''00000000000000000000000a'' lines total_items) \<and>
      map cl_quantity lines = [2] \<and>
      map cl_subtotal lines = [mul test_deps (p_price (sample_products ! 3)) 2] \<and>
      total_items = 3 \<and> sum_list (map cl_quantity lines) < total_items)"
proof -
  have h1: "is_valid test_deps ''00000000000000000000000a''" by simp
  have h2: "\<not> store_fails test_deps (FindOne Carts)" by simp
  have h3: "\<not> store_fails test_deps (FindOne Products)" by simp
  have h4: "find (\<lambda>c. c_user_id c = ObjectId test_deps ''00000000000000000000000a'')
     (carts_collection shrunk_store) = Some sample_cart"
    by (simp add: shrunk_store_carts sample_cart_def)
  have h5: "c_items sample_cart \<noteq> []" by (simp add: sample_cart_def)
  have lines: "List.map_filter (cart_view_line test_deps shrunk_store) (c_items sample_cart) =
     [\<lparr>cl_product = replace_mongo_id test_deps (sample_products ! 3), cl_quantity = 2,
       cl_subtotal = mul test_deps (p_price (sample_products ! 3)) 2\<rparr>]"
    by (simp add: cart_view_line_def shrunk_store_products sample_cart_def sample_products_def)
  have total: "sum_list (map quantity (c_items sample_cart)) = 3"
    by (simp add: sample_cart_def)
  from get_cart_omits_stale[OF h1 h2 h3 h4 h5] h1 h2 h3 h4 h5
  show ?thesis by (auto simp: lines total)
qed

section \<open>Registration\<close>

text \<open>
  Claim C6.  (1) When some stored user has the requested username or the requested email
  (and the lookup does not raise), \<open>register_user\<close> fails with status 409 and leaves the
  store as it was: no user and no cart is inserted.  (2) When no stored user has either (and
  neither the lookup nor the two inserts raise), it succeeds: the store it leaves is the old
  one with one user appended, whose identifier is new and whose password field is
  \<open>hash_password password\<close>, and one cart appended, which belongs to that identifier and has
  no items; nothing else is written, so the password is stored in no other form.
\<close>

theorem register_conflict_or_create:
  "(\<not> store_fails d (FindOne Users) \<and>
    (\<exists>u \<in> set (users_collection st). u_username u = username \<or> u_email u = email)
    \<longrightarrow> register_user d st username email password now1 now2 =
          (Inl (HTTPException 409 ''Username or email already exists''), st)) \<and>
   (\<not> store_fails d (FindOne Users) \<and> \<not> store_fails d (InsertOne Users) \<and>
    \<not> store_fails d (InsertOne Carts) \<and>
    \<not> (\<exists>u \<in> set (users_collection st). u_username u = username \<or> u_email u = email)
    \<longrightarrow> (\<exists>uid cid.
           uid \<notin> u_id ` set (users_collection st) \<and>
           register_user d st username email password now1 now2 =
             (Inr \<lparr>rr_message = ''User registered successfully'', rr_user_id = str d uid\<rparr>,
              st\<lparr>users_collection := users_collection st @
                     [\<lparr>u_id = uid, u_username = username, u_email = email,
                       u_password = hash_password d password, u_created_at = now1\<rparr>],
                 carts_collection := carts_collection st @
                     [\<lparr>c_id = cid, c_user_id = uid, c_items = [], c_updated_at = now2\<rparr>]\<rparr>)))"
proof (intro conjI impI)
  assume a: "\<not> store_fails d (FindOne Users) \<and>
    (\<exists>u \<in> set (users_collection st). u_username u = username \<or> u_email u = email)"
  then have "find (\<lambda>u. u_username u = username \<or> u_email u = email) (users_collection st) \<noteq> None"
    by (auto simp: find_None_iff)
  then show "register_user d st username email password now1 now2 =
          (Inl (HTTPException 409 ''Username or email already exists''), st)"
    using a by (auto simp: register_user_def find_one_user_def)
next
  assume a: "\<not> store_fails d (FindOne Users) \<and> \<not> store_fails d (InsertOne Users) \<and>
    \<not> store_fails d (InsertOne Carts) \<and>
    \<not> (\<exists>u \<in> set (users_collection st). u_username u = username \<or> u_email u = email)"
  then have none: "find (\<lambda>u. u_username u = username \<or> u_email u = email) (users_collection st) = None"
    by (auto simp: find_None_iff)
  let ?uid = "new_id (map u_id (users_collection st))"
  let ?cid = "new_id (map c_id (carts_collection st))"
  have fresh: "?uid \<notin> u_id ` set (users_collection st)"
    using new_id_fresh[of "map u_id (users_collection st)"] by simp
  have run: "register_user d st username email password now1 now2 =
             (Inr \<lparr>rr_message = ''User registered successfully'', rr_user_id = str d ?uid\<rparr>,
              st\<lparr>users_collection := users_collection st @
                     [\<lparr>u_id = ?uid, u_username = username, u_email = email,
                       u_password = hash_password d password, u_created_at = now1\<rparr>],
                 carts_collection := carts_collection st @
                     [\<lparr>c_id = ?cid, c_user_id = ?uid, c_items = [], c_updated_at = now2\<rparr>]\<rparr>)"
    using a none
    by (simp add: register_user_def find_one_user_def insert_one_user_def insert_one_cart_def Let_def)
  show "\<exists>uid cid.
           uid \<notin> u_id ` set (users_collection st) \<and>
           register_user d st username email password now1 now2 =
             (Inr \<lparr>rr_message = ''User registered successfully'', rr_user_id = str d uid\<rparr>,
              st\<lparr>users_collection := users_collection st @
                     [\<lparr>u_id = uid, u_username = username, u_email = email,
                       u_password = hash_password d password, u_created_at = now1\<rparr>],
                 carts_collection := carts_collection st @
                     [\<lparr>c_id = cid, c_user_id = uid, c_items = [], c_updated_at = now2\<rparr>]\<rparr>)"
    apply (rule exI[of _ ?uid], rule exI[of _ ?cid])
    using fresh run by simp
qed

theorem register_conflict_or_create_witness:
  "\<not> store_fails test_deps (FindOne Users) \<and>
   \<not> store_fails test_deps (InsertOne Users) \<and>
   \<not> store_fails test_deps (InsertOne Carts) \<and>
   list_ex (\<lambda>u. u_username u = ''ama'' \<or> u_email u = ''other@example.com'')
     (users_collection sample_store) \<and>
   list_ex (\<lambda>u. u_username u = ''other'' \<or> u_email u = ''kofi@example.com'')
     (users_collection sample_store) \<and>
   register_user test_deps sample_store ''ama'' ''other@example.com'' ''pw'' ''t1'' ''t2'' =
     (Inl (HTTPException 409 ''Username or email already exists''), sample_store) \<and>
   register_user test_deps sample_store ''other'' ''kofi@example.com'' ''pw'' ''t1'' ''t2'' =
     (Inl (HTTPException 409 ''Username or email already exists''), sample_store) \<and>
   \<not> list_ex (\<lambda>u. u_username u = ''esi'' \<or> u_email u = ''esi@example.com'')
     (users_collection sample_store) \<and>
   (\<exists>uid cid.
      uid \<notin> u_id ` set (users_collection sample_store) \<and>
      register_user test_deps sample_store ''esi'' ''esi@example.com'' ''pw'' ''t1'' ''t2'' =
        (Inr \<lparr>rr_message = ''User registered successfully'', rr_user_id = str test_deps uid\<rparr>,
         sample_store\<lparr>users_collection := users_collection sample_store @
                     [\<lparr>u_id = uid, u_username = ''esi'', u_email = ''esi@example.com'',
                       u_password = ''$pw'', u_created_at = ''t1''\<rparr>],
                 carts_collection := carts_collection sample_store @
                     [\<lparr>c_id = cid, c_user_id = uid, c_items = [], c_updated_at = ''t2''\<rparr>]\<rparr>))"
proof -
  have f: "\<not> store_fails test_deps (FindOne Users)" "\<not> store_fails test_deps (InsertOne Users)"
    "\<not> store_fails test_deps (InsertOne Carts)" by simp_all
  have a1: "\<exists>u \<in> set (users_collection sample_store).
              u_username u = ''ama'' \<or> u_email u = ''other@example.com''"
    by (simp add: sample_store_users)
  have a2: "\<exists>u \<in> set (users_collection sample_store).
              u_username u = ''other'' \<or> u_email u = ''kofi@example.com''"
    by (simp add: sample_store_users)
  have a3: "\<not> (\<exists>u \<in> set (users_collection sample_store).
              u_username u = ''esi'' \<or> u_email u = ''esi@example.com'')"
    by (simp add: sample_store_users)
  have hash: "hash_password test_deps ''pw'' = ''$pw''" by (simp add: test_deps_def)
  from f a1 register_conflict_or_create[of test_deps sample_store "''ama''" "''other@example.com''"
      "''pw''" "''t1''" "''t2''"]
  have r1: "register_user test_deps sample_store ''ama'' ''other@example.com'' ''pw'' ''t1'' ''t2'' =
     (Inl (HTTPException 409 ''Username or email already exists''), sample_store)"
    by blast
  from f a2 register_conflict_or_create[of test_deps sample_store "''other''" "''kofi@example.com''"
      "''pw''" "''t1''" "''t2''"]
  have r2: "register_user test_deps sample_store ''other'' ''kofi@example.com'' ''pw'' ''t1'' ''t2'' =
     (Inl (HTTPException 409 ''Username or email already exists''), sample_store)"
    by blast
  from f a3 register_conflict_or_create[of test_deps sample_store "''esi''" "''esi@example.com''"
      "''pw''" "''t1''" "''t2''"]
  have r3: "\<exists>uid cid.
      uid \<notin> u_id ` set (users_collection sample_store) \<and>
      register_user test_deps sample_store ''esi'' ''esi@example.com'' ''pw'' ''t1'' ''t2'' =
        (Inr \<lparr>rr_message = ''User registered successfully'', rr_user_id = str test_deps uid\<rparr>,
         sample_store\<lparr>users_collection := users_collection sample_store @
                     [\<lparr>u_id = uid, u_username = ''esi'', u_email = ''esi@example.com'',
                       u_password = ''$pw'', u_created_at = ''t1''\<rparr>],
                 carts_collection := carts_collection sample_store @
                     [\<lparr>c_id = cid, c_user_id = uid, c_items = [], c_updated_at = ''t2''\<rparr>]\<rparr>)"
    unfolding hash[symmetric] by blast
  from f a1 a2 a3 r1 r2 r3 show ?thesis
    unfolding list_ex_iff by blast
qed

section \<open>Login\<close>

text \<open>
  Claim C7.  Take any two login requests against the same deployment, the first with an
  identifier that matches no user (by username or email), the second with an identifier that
  matches a user whose stored hash the given password does not verify against.  Both fail,
  and with the same result: status 401 with the message ``Invalid credentials'' (or, when the
  user lookup itself raises, the same store error).  The result does not tell an unknown
  identifier from a wrong password.
\<close>

theorem login_failures_indistinguishable:
  assumes unknown: "find (\<lambda>u. u_username u = ident1 \<or> u_email u = ident1) (users_collection st1) = None"
    and known: "find (\<lambda>u. u_username u = ident2 \<or> u_email u = ident2) (users_collection st2) = Some user"
    and wrong: "\<not> verify_password d password2 (u_password user)"
  shows "login_user d st1 ident1 password1 = login_user d st2 ident2 password2 \<and>
         (\<exists>e. login_user d st1 ident1 password1 = Inl e) \<and>
         (if store_fails d (FindOne Users)
          then login_user d st1 ident1 password1 = Inl PyMongoError
          else login_user d st1 ident1 password1 = Inl (HTTPException 401 ''Invalid credentials''))"
  using assms by (simp add: login_user_def find_one_user_def)

theorem login_failures_indistinguishable_witness:
  "find (\<lambda>u. u_username u = ''nobody'' \<or> u_email u = ''nobody'') (users_collection sample_store) = None \<and>
   find (\<lambda>u. u_username u = ''ama'' \<or> u_email u = ''ama'') (users_collection sample_store) =
     Some (hd (users_collection sample_store)) \<and>
   \<not> verify_password test_deps ''guess'' (u_password (hd (users_collection sample_store))) \<and>
   login_user test_deps sample_store ''nobody'' ''secret'' =
     login_user test_deps sample_store ''ama'' ''guess'' \<and>
   login_user test_deps sample_store ''nobody'' ''secret'' =
     Inl (HTTPException 401 ''Invalid credentials'')"
proof -
  have h1: "find (\<lambda>u. u_username u = ''nobody'' \<or> u_email u = ''nobody'')
      (users_collection sample_store) = None"
    by (simp add: sample_store_users)
  have h2: "find (\<lambda>u. u_username u = ''ama'' \<or> u_email u = ''ama'') (users_collection sample_store) =
     Some (hd (users_collection sample_store))"
    by (simp add: sample_store_users)
  have h3: "\<not> verify_password test_deps ''guess'' (u_password (hd (users_collection sample_store)))"
    by (simp add: sample_store_users test_deps_def)
  note r = login_failures_indistinguishable[OF h1 h2 h3, of "''secret''"]
  have same: "login_user test_deps sample_store ''nobody'' ''secret'' =
      login_user test_deps sample_store ''ama'' ''guess''"
    using r by (rule conjunct1)
  have what: "login_user test_deps sample_store ''nobody'' ''secret'' =
      Inl (HTTPException 401 ''Invalid credentials'')"
    using conjunct2[OF conjunct2[OF r]] by simp
  from h1 h2 h3 same what show ?thesis by blast
qed

end
